theory Spec2Isabelle
  imports Main "HOL-Library.Multiset"
begin

section \<open>JavaScript values\<close>

text \<open>
  The provisioning flow of \<^verbatim>\<open>src/extension/hellofranklin.js\<close> handles values that come
  out of \<^verbatim>\<open>response.json()\<close>, so any JSON value can reach it, and \<^verbatim>\<open>undefined\<close> is
  what reading a missing property gives. A \<^typ>\<open>char\<close> stands for one UTF-16 code unit
  below 256; numbers are the integers (the code only observes whether a number is zero and,
  in a template literal, its decimal text, which is the plain decimal numeral below
  \<open>10\<^sup>2\<^sup>1\<close>). An object is the list of its own properties in insertion order.
\<close>

datatype jsval =
    JUndefined
  | JNull
  | JBool bool
  | JNum int
  | JStr string
  | JArr "jsval list"
  | JObj "(string \<times> jsval) list"

text \<open>What is thrown: every throw of the flow is an \<^verbatim>\<open>Error\<close> object or one of its
  run-time subclasses, and the handler reads only \<^verbatim>\<open>e.message\<close>.\<close>

datatype js_error = Error string | TypeError string | SyntaxError string

fun message :: "js_error \<Rightarrow> string" where
  "message (Error m) = m"
| "message (TypeError m) = m"
| "message (SyntaxError m) = m"

definition bindE :: "js_error + 'a \<Rightarrow> ('a \<Rightarrow> js_error + 'b) \<Rightarrow> js_error + 'b" where
  "bindE m f = (case m of Inl e \<Rightarrow> Inl e | Inr x \<Rightarrow> f x)"

fun truthy :: "jsval \<Rightarrow> bool" where
  "truthy JUndefined = False"
| "truthy JNull = False"
| "truthy (JBool b) = b"
| "truthy (JNum n) = (n \<noteq> 0)"
| "truthy (JStr s) = (s \<noteq> [])"
| "truthy (JArr xs) = True"
| "truthy (JObj kvs) = True"

subsection \<open>Strings\<close>

fun starts_with :: "string \<Rightarrow> string \<Rightarrow> bool" where
  "starts_with [] s = True"
| "starts_with (p # ps) [] = False"
| "starts_with (p # ps) (c # cs) = (p = c \<and> starts_with ps cs)"

text \<open>\<^verbatim>\<open>s.indexOf(pat)\<close>: the first position where \<open>pat\<close> occurs, \<open>-1\<close> if none.\<close>

fun indexOf_from :: "int \<Rightarrow> string \<Rightarrow> string \<Rightarrow> int" where
  "indexOf_from i [] pat = (if pat = [] then i else - 1)"
| "indexOf_from i (c # cs) pat =
     (if starts_with pat (c # cs) then i else indexOf_from (i + 1) cs pat)"

definition indexOf :: "string \<Rightarrow> string \<Rightarrow> int" where
  "indexOf s pat = indexOf_from 0 s pat"

definition str_includes :: "string \<Rightarrow> string \<Rightarrow> bool" where
  "str_includes s pat = (indexOf s pat \<noteq> - 1)"

text \<open>\<^verbatim>\<open>s.substring(start, end)\<close>: both indices are clamped to \<open>0 .. length s\<close> and
  swapped when \<open>start > end\<close>; \<^verbatim>\<open>s.substring(start)\<close> runs to the end.\<close>

definition clamp_index :: "string \<Rightarrow> int \<Rightarrow> nat" where
  "clamp_index s i = min (nat i) (length s)"

definition substring :: "string \<Rightarrow> int \<Rightarrow> int \<Rightarrow> string" where
  "substring s start fin =
     (let a = clamp_index s start; b = clamp_index s fin
      in take (max a b - min a b) (drop (min a b) s))"

definition substring_from :: "string \<Rightarrow> int \<Rightarrow> string" where
  "substring_from s start = substring s start (int (length s))"

fun show_nat :: "nat \<Rightarrow> string" where
  "show_nat n =
     (if n < 10 then [char_of (48 + n)]
      else show_nat (n div 10) @ [char_of (48 + n mod 10)])"

declare show_nat.simps [simp del]

fun join_with :: "string \<Rightarrow> string list \<Rightarrow> string" where
  "join_with sep [] = []"
| "join_with sep [x] = x"
| "join_with sep (x # y # ys) = x @ sep @ join_with sep (y # ys)"

text \<open>The string a value turns into inside a template literal (\<^verbatim>\<open>`${v}`\<close>) and, for the
  elements of an array, inside \<^verbatim>\<open>join\<close>.\<close>

fun to_string :: "jsval \<Rightarrow> string" where
  "to_string JUndefined = ''undefined''"
| "to_string JNull = ''null''"
| "to_string (JBool b) = (if b then ''true'' else ''false'')"
| "to_string (JNum n) = (if n < 0 then ''-'' @ show_nat (nat (- n)) else show_nat (nat n))"
| "to_string (JStr s) = s"
| "to_string (JArr xs) =
     join_with '','' (map (\<lambda>x. if x = JNull \<or> x = JUndefined then [] else to_string x) xs)"
| "to_string (JObj kvs) = ''[object Object]''"

definition squote :: string where
  "squote = [CHR 0x27]"

subsection \<open>Property reads and method calls\<close>

text \<open>\<^verbatim>\<open>v.p\<close> for the property names the flow reads (none of them lives on a prototype):
  a TypeError on \<^verbatim>\<open>null\<close> and \<^verbatim>\<open>undefined\<close>, the own property of an object, and
  \<^verbatim>\<open>undefined\<close> everywhere else.\<close>

fun get_prop :: "jsval \<Rightarrow> string \<Rightarrow> js_error + jsval" where
  "get_prop JUndefined p =
     Inl (TypeError (''Cannot read properties of undefined (reading '' @ squote @ p @ squote @ '')''))"
| "get_prop JNull p =
     Inl (TypeError (''Cannot read properties of null (reading '' @ squote @ p @ squote @ '')''))"
| "get_prop (JObj kvs) p = (case map_of kvs p of None \<Rightarrow> Inr JUndefined | Some v \<Rightarrow> Inr v)"
| "get_prop v p = Inr JUndefined"

text \<open>\<^verbatim>\<open>v.includes(pat)\<close> with a string argument: strings and arrays have the method, on
  anything else the call is a TypeError. \<open>expr\<close> is the source text of the receiver, which
  the engine quotes in the message.\<close>

fun js_includes :: "string \<Rightarrow> jsval \<Rightarrow> string \<Rightarrow> js_error + bool" where
  "js_includes expr (JStr s) pat = Inr (str_includes s pat)"
| "js_includes expr (JArr xs) pat = Inr (JStr pat \<in> set xs)"
| "js_includes expr JUndefined pat =
     Inl (TypeError (''Cannot read properties of undefined (reading '' @ squote @ ''includes'' @ squote @ '')''))"
| "js_includes expr JNull pat =
     Inl (TypeError (''Cannot read properties of null (reading '' @ squote @ ''includes'' @ squote @ '')''))"
| "js_includes expr v pat = Inl (TypeError (expr @ ''.includes is not a function''))"

section \<open>Error bodies of the storage API\<close>

text \<open>\<^verbatim>\<open>handleErrors(data)\<close>, lines 52-68. The two \<^verbatim>\<open>log.error\<close> calls only write to the
  console. The result is the value of \<^verbatim>\<open>errormsg\<close>, \<^verbatim>\<open>undefined\<close> when no branch
  assigned it.\<close>

definition handleErrors :: "jsval \<Rightarrow> js_error + jsval" where
  "handleErrors data =
     bindE (get_prop data ''error'') (\<lambda>err.
       if truthy err then
         bindE (get_prop err ''message'') (\<lambda>msg.
           if truthy msg then
             bindE (js_includes ''data.error.message'' msg ''User message'') (\<lambda>found.
               if found then
                 (case msg of
                    JStr m \<Rightarrow> Inr (JStr (substring_from m (indexOf m ''User message'' + 14)))
                  | _ \<Rightarrow> Inl (TypeError ''data.error.message.substring is not a function''))
               else Inr msg)
           else Inr data)
       else Inr JUndefined)"

subsection \<open>URL encoding\<close>

definition hex_digit :: "nat \<Rightarrow> char" where
  "hex_digit n = (if n < 10 then char_of (48 + n) else char_of (55 + n))"

definition percent_byte :: "nat \<Rightarrow> string" where
  "percent_byte b = [CHR ''%'', hex_digit (b div 16), hex_digit (b mod 16)]"

definition utf8 :: "char \<Rightarrow> nat list" where
  "utf8 c = (let n = of_char c in if n < 128 then [n] else [192 + n div 64, 128 + n mod 64])"

definition is_alnum :: "char \<Rightarrow> bool" where
  "is_alnum c =
     (let n = (of_char c :: nat)
      in (48 \<le> n \<and> n \<le> 57) \<or> (65 \<le> n \<and> n \<le> 90) \<or> (97 \<le> n \<and> n \<le> 122))"

text \<open>\<^verbatim>\<open>encodeURIComponent\<close>: letters, digits and \<^verbatim>\<open>- _ . ! ~ * ' ( )\<close> stay, every other
  character becomes the percent-escapes of its UTF-8 bytes.\<close>

definition encodeURIComponent :: "string \<Rightarrow> string" where
  "encodeURIComponent s =
     concat (map (\<lambda>c. if is_alnum c \<or> c \<in> set ''-_.!~*'()'' then [c]
                       else concat (map percent_byte (utf8 c))) s)"

text \<open>\<^verbatim>\<open>`${new URLSearchParams({q: v})}`\<close>: the form-urlencoded serialisation of one pair.\<close>

definition form_encode :: "string \<Rightarrow> string" where
  "form_encode s =
     concat (map (\<lambda>c. if c = CHR '' '' then ''+''
                       else if is_alnum c \<or> c \<in> set ''*-._'' then [c]
                       else concat (map percent_byte (utf8 c))) s)"

definition URLSearchParams_q :: "string \<Rightarrow> string" where
  "URLSearchParams_q v = ''q='' @ form_encode v"

section \<open>The world outside the extension\<close>

text \<open>Every request the flow issues is recorded with the function that issues it. A
  \<^verbatim>\<open>fetch\<close> is recorded with its method, URL, headers and the value handed to
  \<^verbatim>\<open>JSON.stringify\<close> for the body (the blob itself for the upload).\<close>

datatype caller =
    In_getGitHubAuthToken
  | In_getAccessToken
  | In_createUserRepo
  | In_getGoogleAccessToken
  | In_createFolder
  | In_createPermission
  | In_editFsTab
  | In_getTemplateFolderId
  | In_getFolderItemsByID
  | In_getFile
  | In_uploadFile
  | In_installHelixbot

datatype call =
    AuthFlow caller string
  | Fetch caller string string "(string \<times> string) list" jsval

text \<open>What the flow emits, in order: the two kinds of \<^verbatim>\<open>chrome.runtime.sendMessage\<close>, a
  request, and the requests of a continuation that nobody awaits (\<^verbatim>\<open>dataBlob.then(...)\<close>
  in \<^verbatim>\<open>addTemplate\<close>). The event stands where the continuation is registered; its
  requests are sent later, once the export has answered, by when the caller has gone on,
  and in this order among themselves.\<close>

datatype event =
    Status string int
  | Publish jsval
  | Net call
  | Detached "call list"

text \<open>A response as the flow reads it: the status and what parsing the body gives. An
  unparsable body carries the message of the SyntaxError that parsing it raises.\<close>

datatype payload = NoBody | Unparsable string | Parsed jsval

record response =
  status :: nat
  payload :: payload

definition json :: "response \<Rightarrow> js_error + jsval" where
  "json r =
     (case payload r of
        Parsed v \<Rightarrow> Inr v
      | Unparsable m \<Rightarrow> Inl (SyntaxError m)
      | NoBody \<Rightarrow> Inl (SyntaxError ''Unexpected end of JSON input''))"

text \<open>The outcomes of the requests, one per place of the flow; \<open>Inl\<close> is a rejected promise.
  Each place is reached at most once in a run, except the three of the per-file copy, whose
  outcome depends on the request.\<close>

record env =
  REDIRECT_URI :: string
  lastError :: bool
  github_authorize :: "js_error + string option"
  github_access_token :: "js_error + (js_error + string)"
  github_generate :: "js_error + response"
  google_authorize :: "js_error + string option"
  drive_create_folder :: "js_error + response"
  drive_create_permission :: "js_error + response"
  github_get_fstab :: "js_error + response"
  github_put_fstab :: "js_error + response"
  drive_find_template :: "js_error + response"
  drive_list_folder :: "js_error + response"
  docs_export :: "string \<Rightarrow> js_error + (js_error + string)"
  drive_upload_init :: "jsval \<Rightarrow> js_error + jsval"
  drive_upload_put :: "string \<Rightarrow> js_error + response"

subsection \<open>Sequencing with exceptions and a trace\<close>

type_synonym ('ev, 'a) run = "'ev list \<times> (js_error + 'a)"

definition ret :: "'a \<Rightarrow> ('ev, 'a) run" where
  "ret x = ([], Inr x)"

definition throw :: "js_error \<Rightarrow> ('ev, 'a) run" where
  "throw e = ([], Inl e)"

definition lift :: "js_error + 'a \<Rightarrow> ('ev, 'a) run" where
  "lift r = ([], r)"

definition bind :: "('ev, 'a) run \<Rightarrow> ('a \<Rightarrow> ('ev, 'b) run) \<Rightarrow> ('ev, 'b) run" where
  "bind m f =
     (case m of
        (es, Inl e) \<Rightarrow> (es, Inl e)
      | (es, Inr x) \<Rightarrow> (case f x of (es', r) \<Rightarrow> (es @ es', r)))"

definition launchWebAuthFlow :: "caller \<Rightarrow> string \<Rightarrow> js_error + 'a \<Rightarrow> (event, 'a) run" where
  "launchWebAuthFlow who url outcome = ([Net (AuthFlow who url)], outcome)"

definition fetch ::
  "caller \<Rightarrow> string \<Rightarrow> string \<Rightarrow> (string \<times> string) list \<Rightarrow> jsval \<Rightarrow> js_error + 'a \<Rightarrow> (call, 'a) run" where
  "fetch who method url headers body outcome = ([Fetch who method url headers body], outcome)"

definition awaited :: "(call, 'a) run \<Rightarrow> (event, 'a) run" where
  "awaited m = (map Net (fst m), snd m)"

section \<open>The stages (\<^verbatim>\<open>src/extension/hellofranklin.js\<close>)\<close>

definition CLIENT_ID :: string where
  "CLIENT_ID = encodeURIComponent ''7f57ca41ae308a1e499c''"

definition GIT_CLIENT_SECRET :: string where
  "GIT_CLIENT_SECRET = ''576d72f19970fc1c2f495f27181663342d6b5781''"

definition TEMPLATE_FOLDER_ID :: string where
  "TEMPLATE_FOLDER_ID = ''1-5OSYB0kEPYD3q8JB0MvMVv-2ZaErbak''"

definition googleClientId :: string where
  "googleClientId =
     encodeURIComponent ''709069296039-4j9ps75je88kfgvqgpp3sa3pb3c5fic2.apps.googleusercontent.com''"

definition json_headers :: "string \<Rightarrow> (string \<times> string) list" where
  "json_headers authorization =
     [(''Authorization'', authorization), (''Content-Type'', ''application/json'')]"

text \<open>\<^verbatim>\<open>getGoogleAccessToken\<close>, lines 23-40. The two empty branches fall through to
  \<^verbatim>\<open>return null\<close>.\<close>

definition getGoogleAccessToken :: "env \<Rightarrow> (event, jsval) run" where
  "getGoogleAccessToken env =
     (let googleScope = encodeURIComponent ''https://www.googleapis.com/auth/drive'';
          googleAuthURL =
            ''https://accounts.google.com/o/oauth2/v2/auth?scope='' @ googleScope
            @ ''&include_granted_scopes=true&response_type=token&state=state_parameter_passthrough_value&redirect_uri=''
            @ REDIRECT_URI env @ ''&client_id='' @ googleClientId
      in bind (launchWebAuthFlow In_getGoogleAccessToken googleAuthURL (google_authorize env))
           (\<lambda>redirectUrl.
              if lastError env then ret JNull
              else (case redirectUrl of
                      None \<Rightarrow>
                        throw (TypeError (''Cannot read properties of undefined (reading ''
                                          @ squote @ ''includes'' @ squote @ '')''))
                    | Some u \<Rightarrow>
                        if str_includes u ''access_denied'' then ret JNull
                        else
                          (let googleAccessToken = substring_from u (indexOf u ''access_token='' + 13)
                           in ret (JStr (substring googleAccessToken 0
                                           (indexOf googleAccessToken ''&'')))))))"

text \<open>\<^verbatim>\<open>sendStatusMessage\<close>, lines 42-50.\<close>

definition sendStatusMessage :: "string \<Rightarrow> int \<Rightarrow> (event, unit) run" where
  "sendStatusMessage statusMessage percentCompletion =
     ([Status statusMessage percentCompletion], Inr ())"

text \<open>\<^verbatim>\<open>getGitHubAuthToken\<close>, lines 70-87. The timer only clears the local variable an hour
  later; the string already returned is not affected.\<close>

definition getGitHubAuthToken :: "env \<Rightarrow> (event, string) run" where
  "getGitHubAuthToken env =
     (let gitAuthEndPoint =
            ''https://github.com/login/oauth/authorize?client_id='' @ CLIENT_ID
            @ ''&redirect_uri='' @ REDIRECT_URI env @ ''&scope=repo,gist,admin''
      in bind (launchWebAuthFlow In_getGitHubAuthToken gitAuthEndPoint (github_authorize env))
           (\<lambda>redirectUrl.
              case redirectUrl of
                None \<Rightarrow>
                  throw (TypeError (''Cannot read properties of undefined (reading ''
                                    @ squote @ ''includes'' @ squote @ '')''))
              | Some u \<Rightarrow>
                  if str_includes u ''error=access_denied'' then
                    (let errormsg = '' Access denied !''
                     in throw (Error (''Failed to Authorize Git : '' @ errormsg)))
                  else ret (substring_from u (indexOf u ''code='' + 5))))"

text \<open>\<^verbatim>\<open>getAccessToken\<close>, lines 89-104. The outcome of the request is the rejection of
  \<^verbatim>\<open>fetch\<close>, or else that of \<^verbatim>\<open>response.text()\<close>, or else the text. Nothing looks at
  the status or at what the text says.\<close>

definition getAccessToken :: "env \<Rightarrow> string \<Rightarrow> (event, string) run" where
  "getAccessToken env gitAuthToken =
     (let getaccesstokenurl = ''https://github.com/login/oauth/access_token'';
          bodyjson = JObj [(''client_id'', JStr CLIENT_ID),
                           (''client_secret'', JStr GIT_CLIENT_SECRET),
                           (''code'', JStr gitAuthToken)]
      in bind (awaited (fetch In_getAccessToken ''POST'' getaccesstokenurl
                          [(''Authentication'', gitAuthToken), (''Content-Type'', ''application/json'')]
                          bodyjson (github_access_token env)))
           (\<lambda>response. bind (lift response)
           (\<lambda>data.
              let accessToken = substring_from data (indexOf data ''access_token='' + 13)
              in ret (substring accessToken 0 (indexOf accessToken ''&'')))))"

text \<open>\<^verbatim>\<open>createUserRepo\<close>, lines 106-115: the parsed body is returned as it is.\<close>

definition createUserRepo :: "env \<Rightarrow> string \<Rightarrow> string \<Rightarrow> (event, jsval) run" where
  "createUserRepo env repoName accessToken =
     (let createRepoUrl =
            ''https://api.github.com/repos/hellofranklin/helix-project-boilerplate/generate'';
          authtring = ''Bearer '' @ accessToken
      in bind (awaited (fetch In_createUserRepo ''POST'' createRepoUrl (json_headers authtring)
                          (JObj [(''name'', JStr repoName)]) (github_generate env)))
           (\<lambda>response. lift (json response)))"

text \<open>\<^verbatim>\<open>createFolder\<close>, lines 117-130. \<^verbatim>\<open>errormsg\<close> is declared and never assigned.\<close>

definition createFolder :: "env \<Rightarrow> string \<Rightarrow> jsval \<Rightarrow> (event, jsval) run" where
  "createFolder env folderName googleAccessToken =
     bind (awaited (fetch In_createFolder ''POST'' ''https://www.googleapis.com/drive/v3/files''
                      (json_headers (''Bearer '' @ to_string googleAccessToken))
                      (JObj [(''name'', JStr folderName),
                             (''mimeType'', JStr ''application/vnd.google-apps.folder'')])
                      (drive_create_folder env)))
       (\<lambda>response. bind (lift (json response))
       (\<lambda>data.
          let errormsg = JUndefined
          in bind (lift (handleErrors data))
               (\<lambda>handled.
                  if handled \<noteq> JUndefined then
                    throw (Error ([CHR 0x0A] @ ''Failed to create Google drive Folder : ''
                                  @ to_string errormsg))
                  else lift (get_prop data ''id''))))"

text \<open>\<^verbatim>\<open>createPermission\<close>, lines 132-147.\<close>

definition createPermission :: "env \<Rightarrow> jsval \<Rightarrow> jsval \<Rightarrow> (event, unit) run" where
  "createPermission env fileId googleAccessToken =
     (let bodyjson = JObj [(''role'', JStr ''writer''), (''type'', JStr ''user''),
                           (''emailAddress'', JStr ''helix@adobe.com'')]
      in bind (awaited (fetch In_createPermission ''POST''
                          (''https://www.googleapis.com/drive/v3/files/'' @ to_string fileId
                           @ ''/permissions'')
                          (json_headers (''Bearer '' @ to_string googleAccessToken))
                          bodyjson (drive_create_permission env)))
           (\<lambda>response. bind (lift (json response))
           (\<lambda>data. bind (lift (handleErrors data))
           (\<lambda>errormsg.
              if errormsg \<noteq> JUndefined then
                throw (Error ([CHR 0x0A] @ ''Failed to give permission to Google drive Folder : ''
                              @ to_string errormsg))
              else ret ()))))"

subsection \<open>Base64\<close>

text \<open>\<^verbatim>\<open>btoa\<close>: three code units below 256 become four letters of the base64 alphabet, the
  last group padded with \<^verbatim>\<open>=\<close>. (The browser throws on a code unit of 256 or more; a
  \<^typ>\<open>char\<close> has none.)\<close>

definition b64_char :: "nat \<Rightarrow> char" where
  "b64_char n =
     (if n < 26 then char_of (65 + n)
      else if n < 52 then char_of (71 + n)
      else if n < 62 then char_of (n - 4)
      else if n = 62 then CHR ''+'' else CHR ''/'')"

fun btoa :: "string \<Rightarrow> string" where
  "btoa [] = []"
| "btoa [a] =
     (let x = of_char a
      in [b64_char (x div 4), b64_char (x mod 4 * 16), CHR ''='', CHR ''=''])"
| "btoa [a, b] =
     (let x = of_char a; y = of_char b
      in [b64_char (x div 4), b64_char (x mod 4 * 16 + y div 16),
          b64_char (y mod 16 * 4), CHR ''=''])"
| "btoa (a # b # c # rest) =
     (let x = of_char a; y = of_char b; z = of_char c
      in [b64_char (x div 4), b64_char (x mod 4 * 16 + y div 16),
          b64_char (y mod 16 * 4 + z div 64), b64_char (z mod 64)] @ btoa rest)"

text \<open>The decoding of RFC 4648 that the round trip is stated with: groups of four letters,
  padding only in the last group, \<open>None\<close> on anything else. It is what the receiving end
  of the \<^verbatim>\<open>PUT\<close> does with the \<^verbatim>\<open>content\<close> field; the extension has no decoder.\<close>

definition b64_value :: "char \<Rightarrow> nat option" where
  "b64_value c =
     (let k = (of_char c :: nat)
      in if 65 \<le> k \<and> k \<le> 90 then Some (k - 65)
         else if 97 \<le> k \<and> k \<le> 122 then Some (k - 71)
         else if 48 \<le> k \<and> k \<le> 57 then Some (k + 4)
         else if c = CHR ''+'' then Some 62
         else if c = CHR ''/'' then Some 63
         else None)"

fun base64_decode :: "string \<Rightarrow> string option" where
  "base64_decode [] = Some []"
| "base64_decode (w # x # y # z # rest) =
     (case (b64_value w, b64_value x) of
        (Some p, Some q) \<Rightarrow>
          (if rest = [] \<and> y = CHR ''='' \<and> z = CHR ''='' then
             Some [char_of (p * 4 + q div 16)]
           else (case b64_value y of
             None \<Rightarrow> None
           | Some r \<Rightarrow>
               if rest = [] \<and> z = CHR ''='' then
                 Some [char_of (p * 4 + q div 16), char_of (q mod 16 * 16 + r div 4)]
               else (case (b64_value z, base64_decode rest) of
                 (Some s, Some decoded) \<Rightarrow>
                   Some ([char_of (p * 4 + q div 16), char_of (q mod 16 * 16 + r div 4),
                          char_of (r mod 4 * 64 + s)] @ decoded)
               | _ \<Rightarrow> None)))
      | _ \<Rightarrow> None)"
| "base64_decode _ = None"

subsection \<open>The mount configuration\<close>

text \<open>\<^verbatim>\<open>editFsTab\<close>, lines 149-183. \<^verbatim>\<open>driveUrl\<close> and \<^verbatim>\<open>contentString\<close> are its two local
  constants; the template literal of the second spans a line break followed by two spaces.
  \<^verbatim>\<open>setTimeout(() => {}, 2000)\<close> schedules an empty callback and does not wait.\<close>

definition driveUrl :: "jsval \<Rightarrow> string" where
  "driveUrl folderId = ''https://drive.google.com/drive/folders/'' @ to_string folderId"

definition contentString :: "jsval \<Rightarrow> string" where
  "contentString folderId = ''mountpoints:'' @ [CHR 0x0A] @ ''  /: '' @ driveUrl folderId"

definition editFsTab :: "env \<Rightarrow> jsval \<Rightarrow> string \<Rightarrow> jsval \<Rightarrow> (event, jsval) run" where
  "editFsTab env giturl gitAccessToken folderId =
     (let editfsTaburl = to_string giturl @ ''/contents/fstab.yaml'';
          authtring = ''Bearer '' @ gitAccessToken
      in bind (awaited (fetch In_editFsTab ''GET'' editfsTaburl (json_headers authtring)
                          JUndefined (github_get_fstab env)))
           (\<lambda>response1. bind (lift (json response1))
           (\<lambda>data1. bind (lift (handleErrors data1))
           (\<lambda>errormsg.
              if errormsg \<noteq> JUndefined then
                throw (Error ([CHR 0x0A] @ ''Failed to update FsTab : '' @ to_string errormsg))
              else bind (lift (get_prop data1 ''sha''))
           (\<lambda>blobsha.
              let bodyjson = JObj [(''message'', JStr ''updated FsTab.Yaml''),
                                   (''content'', JStr (btoa (contentString folderId))),
                                   (''sha'', blobsha)]
              in bind (awaited (fetch In_editFsTab ''PUT'' editfsTaburl (json_headers authtring)
                                  bodyjson (github_put_fstab env)))
           (\<lambda>response. bind (lift (json response))
           (\<lambda>data. bind (lift (handleErrors data))
           (\<lambda>errormsg.
              if errormsg \<noteq> JUndefined then
                throw (Error ([CHR 0x0A] @ ''Failed to update FsTab : '' @ to_string errormsg))
              else bind (lift (get_prop data ''commit''))
           (\<lambda>commit. bind (lift (get_prop commit ''message''))
           (\<lambda>msg. bind (lift (js_includes ''data.commit.message'' msg ''updated''))
           (\<lambda>logged. ret data)))))))))))"

text \<open>\<^verbatim>\<open>publish\<close>, lines 185-192.\<close>

definition publish :: "jsval \<Rightarrow> (event, unit) run" where
  "publish gitcloneUrl = ([Publish gitcloneUrl], Inr ())"

subsection \<open>The template copier\<close>

text \<open>\<^verbatim>\<open>getFile\<close>, lines 194-203. A rejected \<^verbatim>\<open>fetch\<close> is caught and logged, after which
  \<^verbatim>\<open>data\<close> is still \<^verbatim>\<open>undefined\<close> and \<^verbatim>\<open>data.blob()\<close> throws.\<close>

definition getFile :: "env \<Rightarrow> jsval \<Rightarrow> string \<Rightarrow> (call, string) run" where
  "getFile env documentId docType =
     (let url = ''https://docs.google.com/document/d/'' @ to_string documentId
                @ ''/export?format='' @ docType
      in ([Fetch In_getFile ''GET'' url [] JUndefined],
          (case docs_export env url of
             Inl e \<Rightarrow>
               Inl (TypeError (''Cannot read properties of undefined (reading ''
                               @ squote @ ''blob'' @ squote @ '')''))
           | Inr blob \<Rightarrow> blob)))"

text \<open>\<^verbatim>\<open>uploadFile\<close>, lines 205-241. The first \<^verbatim>\<open>handleErrors\<close> is given the Response
  object itself, which has no \<^verbatim>\<open>error\<close> property, so it returns \<^verbatim>\<open>undefined\<close>; what
  the first request yields to the rest is the \<^verbatim>\<open>location\<close> header, \<^verbatim>\<open>null\<close> if absent.\<close>

definition uploadFile ::
  "env \<Rightarrow> jsval \<Rightarrow> jsval \<Rightarrow> string \<Rightarrow> string \<Rightarrow> jsval \<Rightarrow> (call, unit) run" where
  "uploadFile env folderId fileName fileblob docType googleAccessToken =
     (let url = ''https://www.googleapis.com/upload/drive/v3/files?uploadType=resumable'';
          uploadContentType =
            (if docType = ''xlsx'' then
               JStr ''application/vnd.openxmlformats-officedocument.spreadsheetml.sheet''
             else if docType = ''docx'' then
               JStr ''application/vnd.openxmlformats-officedocument.wordprocessingml.document''
             else JUndefined);
          mimeType =
            (if docType = ''xlsx'' then JStr ''application/vnd.google-apps.spreadsheet''
             else if docType = ''docx'' then JStr ''application/vnd.google-apps.document''
             else JUndefined)
      in bind (fetch In_uploadFile ''POST'' url
                 [(''Authorization'', ''Bearer '' @ to_string googleAccessToken),
                  (''Content-Type'', ''application/json''),
                  (''X-Upload-Content-Type'', to_string uploadContentType)]
                 (JObj [(''name'', fileName), (''mimeType'', mimeType),
                        (''parents'', JArr [folderId])])
                 (drive_upload_init env fileName))
           (\<lambda>location.
              bind (fetch In_uploadFile ''PUT'' (to_string location)
                      [(''Authorization'', ''Bearer '' @ to_string googleAccessToken)]
                      (JStr fileblob) (drive_upload_put env (to_string location)))
           (\<lambda>response2. bind (lift (json response2))
           (\<lambda>dataResponse. bind (lift (handleErrors dataResponse))
           (\<lambda>errormsg.
              if errormsg \<noteq> JUndefined then
                throw (Error ([CHR 0x0A] @ ''Failed to create Tempate : '' @ to_string errormsg))
              else ret ())))))"

text \<open>\<^verbatim>\<open>for (const x of v)\<close>: the elements of an array, the characters of a string, a
  TypeError on anything else.\<close>

fun iterate :: "string \<Rightarrow> jsval \<Rightarrow> js_error + jsval list" where
  "iterate expr (JArr xs) = Inr xs"
| "iterate expr (JStr s) = Inr (map (\<lambda>c. JStr [c]) s)"
| "iterate expr v = Inl (TypeError (expr @ '' is not iterable''))"

text \<open>\<^verbatim>\<open>getTemplateFolderId\<close>, lines 243-258; first its loop.\<close>

fun getTemplateFolderId_loop :: "string \<Rightarrow> jsval list \<Rightarrow> js_error + jsval" where
  "getTemplateFolderId_loop templateName [] = Inr JNull"
| "getTemplateFolderId_loop templateName (item # rest) =
     bindE (get_prop item ''name'') (\<lambda>name.
       if name = JStr templateName then get_prop item ''id''
       else getTemplateFolderId_loop templateName rest)"

definition getTemplateFolderId :: "env \<Rightarrow> string \<Rightarrow> string \<Rightarrow> jsval \<Rightarrow> (event, jsval) run" where
  "getTemplateFolderId env templatesFolderID templateName googleAccessToken =
     (let params = URLSearchParams_q
                     (squote @ templatesFolderID @ squote @ '' in parents and name=''
                      @ squote @ templateName @ squote);
          driveURL = ''https://www.googleapis.com/drive/v3/files?'' @ params
      in bind (awaited (fetch In_getTemplateFolderId ''GET'' driveURL
                          (json_headers (''Bearer '' @ to_string googleAccessToken))
                          JUndefined (drive_find_template env)))
           (\<lambda>response. bind (lift (json response))
           (\<lambda>responseJson. bind (lift (handleErrors responseJson))
           (\<lambda>ignored. bind (lift (get_prop responseJson ''files''))
           (\<lambda>files. bind (lift (iterate ''responseJson.files'' files))
           (\<lambda>items. lift (getTemplateFolderId_loop templateName items)))))))"

text \<open>\<^verbatim>\<open>getFolderItemsByID\<close>, lines 260-271.\<close>

definition getFolderItemsByID :: "env \<Rightarrow> jsval \<Rightarrow> jsval \<Rightarrow> (event, jsval) run" where
  "getFolderItemsByID env templateFolderID googleAccessToken =
     (let params = URLSearchParams_q
                     (squote @ to_string templateFolderID @ squote @ '' in parents'');
          driveURL = ''https://www.googleapis.com/drive/v3/files?'' @ params
      in bind (awaited (fetch In_getFolderItemsByID ''GET'' driveURL
                          (json_headers (''Bearer '' @ to_string googleAccessToken))
                          JUndefined (drive_list_folder env)))
           (\<lambda>response. bind (lift (json response))
           (\<lambda>responseJson. lift (get_prop responseJson ''files''))))"

text \<open>\<^verbatim>\<open>getDocumentType\<close>, lines 273-282.\<close>

definition getDocumentType :: "jsval \<Rightarrow> string" where
  "getDocumentType fileMimeType =
     (if fileMimeType = JStr ''application/vnd.google-apps.spreadsheet'' then ''xlsx''
      else if fileMimeType = JStr ''application/vnd.google-apps.document'' then ''docx''
      else if fileMimeType = JStr ''application/vnd.google-apps.folder'' then ''folder''
      else ''file'')"

text \<open>\<^verbatim>\<open>addTemplate\<close>, lines 284-297: the copy of one file, the body of the loop, the
  loop, the function. Calling \<^verbatim>\<open>getFile\<close> issues the export request at once; the upload
  is the continuation registered with \<^verbatim>\<open>then\<close>, which runs only if the export gave a
  blob and whose promise nobody holds. \<^verbatim>\<open>tempFile.id\<close> and \<^verbatim>\<open>tempFile.name\<close> are read
  after \<^verbatim>\<open>tempFile.mimeType\<close> was, so they cannot throw.\<close>

definition field :: "jsval \<Rightarrow> string \<Rightarrow> jsval" where
  "field v p = (case get_prop v p of Inr x \<Rightarrow> x | Inl e \<Rightarrow> JUndefined)"

definition copy_file :: "env \<Rightarrow> jsval \<Rightarrow> jsval \<Rightarrow> jsval \<Rightarrow> string \<Rightarrow> event list" where
  "copy_file env targetFolderId gAccessToken tempFile documentType =
     (let dataBlob = getFile env (field tempFile ''id'') documentType
      in map Net (fst dataBlob)
         @ [Detached (case snd dataBlob of
                        Inl e \<Rightarrow> []
                      | Inr result \<Rightarrow>
                          fst (uploadFile env targetFolderId (field tempFile ''name'') result
                                 documentType gAccessToken))])"

definition addTemplate_body :: "env \<Rightarrow> jsval \<Rightarrow> jsval \<Rightarrow> jsval \<Rightarrow> (event, unit) run" where
  "addTemplate_body env targetFolderId gAccessToken tempFile =
     bind (lift (get_prop tempFile ''mimeType''))
       (\<lambda>mimeType.
          let documentType = getDocumentType mimeType
          in if documentType = ''xlsx'' \<or> documentType = ''docx'' then
               (copy_file env targetFolderId gAccessToken tempFile documentType, Inr ())
             else ret ())"

fun addTemplate_loop :: "env \<Rightarrow> jsval \<Rightarrow> jsval \<Rightarrow> jsval list \<Rightarrow> (event, unit) run" where
  "addTemplate_loop env targetFolderId gAccessToken [] = ret ()"
| "addTemplate_loop env targetFolderId gAccessToken (tempFile # rest) =
     bind (addTemplate_body env targetFolderId gAccessToken tempFile)
       (\<lambda>u. addTemplate_loop env targetFolderId gAccessToken rest)"

definition addTemplate :: "env \<Rightarrow> string \<Rightarrow> jsval \<Rightarrow> jsval \<Rightarrow> (event, unit) run" where
  "addTemplate env tempName targetFolderId gAccessToken =
     bind (getTemplateFolderId env TEMPLATE_FOLDER_ID tempName gAccessToken)
       (\<lambda>templateFolderId. bind (getFolderItemsByID env templateFolderId gAccessToken)
       (\<lambda>templateFiles. bind (lift (iterate ''templateFiles'' templateFiles))
       (\<lambda>items. addTemplate_loop env targetFolderId gAccessToken items)))"

text \<open>\<^verbatim>\<open>installHelixbot\<close>, lines 299-301: the flow is launched and its promise dropped.\<close>

definition installHelixbot :: "(event, unit) run" where
  "installHelixbot = ([Net (AuthFlow In_installHelixbot ''https://github.com/apps/helix-bot'')], Inr ())"

section \<open>The orchestrator\<close>

text \<open>\<^verbatim>\<open>oneclicksample\<close>, lines 303-334: the \<^verbatim>\<open>try\<close> block, then the whole function with
  its \<^verbatim>\<open>catch\<close>. The result is everything the run emitted, in order.\<close>

definition oneclicksample_try :: "env \<Rightarrow> string \<Rightarrow> string \<Rightarrow> (event, unit) run" where
  "oneclicksample_try env siteName templateName =
     bind (sendStatusMessage ''Setting Up Git Repo ...'' 0)
       (\<lambda>u. bind (sendStatusMessage ''Setting Up Git Repo ...'' 1)
       (\<lambda>u. bind (getGitHubAuthToken env)
       (\<lambda>gitAuthToken. bind (getAccessToken env gitAuthToken)
       (\<lambda>gitAccessToken. bind (sendStatusMessage ''Setting Up Git Repo ...'' 15)
       (\<lambda>u. bind (createUserRepo env siteName gitAccessToken)
       (\<lambda>gitData. bind (sendStatusMessage ''Git repo successfully created'' 33)
       (\<lambda>u. bind (lift (get_prop gitData ''url''))
       (\<lambda>giturl. bind (lift (get_prop gitData ''clone_url''))
       (\<lambda>gitcloneUrl. bind (sendStatusMessage ''Setting up Google Drive folder...'' 40)
       (\<lambda>u. bind (getGoogleAccessToken env)
       (\<lambda>googleAccessToken. bind (createFolder env siteName googleAccessToken)
       (\<lambda>targetFolderId. bind (sendStatusMessage ''Google Drive folder created successfully'' 50)
       (\<lambda>u. bind (sendStatusMessage ''Giving Permission to Google Drive'' 53)
       (\<lambda>u. bind (createPermission env targetFolderId googleAccessToken)
       (\<lambda>u. bind (sendStatusMessage ''Giving Permission to Google Drive'' 60)
       (\<lambda>u. bind (sendStatusMessage ''Updating FsTab'' 65)
       (\<lambda>u. bind (editFsTab env giturl gitAccessToken targetFolderId)
       (\<lambda>fstab. bind (sendStatusMessage ''Adding Templates'' 75)
       (\<lambda>u. bind (addTemplate env templateName targetFolderId googleAccessToken)
       (\<lambda>u. bind (sendStatusMessage ''Templates Added Templates'' 85)
       (\<lambda>u. bind (sendStatusMessage ''Setup Helix Bot'' 90)
       (\<lambda>u. bind installHelixbot
       (\<lambda>u. bind (sendStatusMessage ''Helix Bot added successfully'' 95)
       (\<lambda>u. bind (sendStatusMessage ''Project setup completed !'' 100)
       (\<lambda>u. publish gitcloneUrl)))))))))))))))))))))))))"

definition oneclicksample :: "env \<Rightarrow> string \<Rightarrow> string \<Rightarrow> event list" where
  "oneclicksample env siteName templateName =
     (case oneclicksample_try env siteName templateName of
        (emitted, Inr u) \<Rightarrow> emitted
      | (emitted, Inl e) \<Rightarrow>
          emitted @ fst (sendStatusMessage
                           (''Failed to create Franklin Project '' @ [CHR 0x0A] @ message e) 0))"

section \<open>The revision that checks the status of a response\<close>

text \<open>A second revision of the same file (it reads its OAuth settings from the manifest)
  replaces \<^verbatim>\<open>handleErrors\<close> by \<^verbatim>\<open>handleGoogleErrors\<close> and \<^verbatim>\<open>handleGitErrors\<close>, which look at
  \<^verbatim>\<open>response.ok\<close>. A function of that revision that has the name of one above carries
  the suffix \<open>_v2\<close>.\<close>

definition ok :: "response \<Rightarrow> bool" where
  "ok r = (200 \<le> status r \<and> status r \<le> 299)"

definition dquote :: string where
  "dquote = [CHR 0x22]"

definition backslash :: string where
  "backslash = [CHR 0x5C]"

definition hex_lower :: "nat \<Rightarrow> char" where
  "hex_lower n = (if n < 10 then char_of (48 + n) else char_of (87 + n))"

text \<open>\<^verbatim>\<open>JSON.stringify\<close> without an indent, on a defined value.\<close>

definition json_escape :: "char \<Rightarrow> string" where
  "json_escape c =
     (let n = (of_char c :: nat)
      in if n = 0x22 then backslash @ dquote
         else if n = 0x5C then backslash @ backslash
         else if n = 0x08 then backslash @ ''b''
         else if n = 0x0C then backslash @ ''f''
         else if n = 0x0A then backslash @ ''n''
         else if n = 0x0D then backslash @ ''r''
         else if n = 0x09 then backslash @ ''t''
         else if n < 0x20 then backslash @ ''u00'' @ [hex_lower (n div 16), hex_lower (n mod 16)]
         else [c])"

definition json_quote :: "string \<Rightarrow> string" where
  "json_quote s = dquote @ concat (map json_escape s) @ dquote"

fun stringify :: "jsval \<Rightarrow> string" where
  "stringify JUndefined = ''null''"
| "stringify JNull = ''null''"
| "stringify (JBool b) = (if b then ''true'' else ''false'')"
| "stringify (JNum n) = to_string (JNum n)"
| "stringify (JStr s) = json_quote s"
| "stringify (JArr xs) = ''['' @ join_with '','' (map stringify xs) @ '']''"
| "stringify (JObj kvs) =
     ''{'' @ join_with '','' (map (\<lambda>(k, v). json_quote k @ '':'' @ stringify v)
                               (filter (\<lambda>(k, v). v \<noteq> JUndefined) kvs)) @ ''}''"

definition JSON_stringify :: "jsval \<Rightarrow> jsval" where
  "JSON_stringify v = (if v = JUndefined then JUndefined else JStr (stringify v))"

text \<open>\<^verbatim>\<open>v.join()\<close>: only arrays have the method.\<close>

fun js_join :: "string \<Rightarrow> jsval \<Rightarrow> js_error + jsval" where
  "js_join expr (JArr xs) = Inr (JStr (to_string (JArr xs)))"
| "js_join expr v = Inl (TypeError (expr @ ''.join is not a function''))"

text \<open>\<^verbatim>\<open>Error(v)\<close>: the message is the string of \<open>v\<close>, empty for \<^verbatim>\<open>undefined\<close>.\<close>

definition Error_of :: "jsval \<Rightarrow> js_error" where
  "Error_of v = Error (if v = JUndefined then [] else to_string v)"

text \<open>The common start of both handlers: the body text is parsed when it is not empty,
  and a parse error is rethrown with \<^verbatim>\<open>data\<close> still \<^verbatim>\<open>undefined\<close> in the message.\<close>

definition parse_body :: "response \<Rightarrow> js_error + jsval" where
  "parse_body r =
     (case payload r of
        NoBody \<Rightarrow> Inr JUndefined
      | Parsed v \<Rightarrow> Inr v
      | Unparsable m \<Rightarrow> Inl (Error (''Response Body not json : '' @ to_string JUndefined)))"

text \<open>\<^verbatim>\<open>handleGoogleErrors\<close>.\<close>

definition handleGoogleErrors :: "response \<Rightarrow> js_error + jsval" where
  "handleGoogleErrors r =
     bindE (parse_body r) (\<lambda>data.
       if \<not> ok r then
         bindE (get_prop data ''error'') (\<lambda>err.
         bindE (if truthy err then get_prop err ''message'' else Inr err) (\<lambda>msg.
           let errorMessage = (if truthy msg then msg else data)
           in bindE (js_includes ''errorMessage'' errorMessage ''User message'') (\<lambda>found.
                bindE (if found then
                         (case errorMessage of
                            JStr m \<Rightarrow> Inr (JStr (substring_from m (indexOf m ''User message'' + 14)))
                          | _ \<Rightarrow> Inl (TypeError ''errorMessage.substring is not a function''))
                       else Inr errorMessage) (\<lambda>errorMessage.
                  if errorMessage \<noteq> JUndefined then Inl (Error_of errorMessage)
                  else Inr data))))
       else Inr data)"

text \<open>\<^verbatim>\<open>handleGitErrors\<close>.\<close>

definition handleGitErrors :: "response \<Rightarrow> js_error + jsval" where
  "handleGitErrors r =
     bindE (parse_body r) (\<lambda>data.
       if \<not> ok r then
         bindE (get_prop data ''errors'') (\<lambda>errors.
         bindE (if truthy errors then js_join ''data.errors'' errors
                else Inr (JSON_stringify data)) (\<lambda>errormsg.
           if errormsg \<noteq> JUndefined then Inl (Error_of errormsg)
           else Inr data))
       else Inr data)"

text \<open>\<^verbatim>\<open>createUserRepo\<close> of that revision: whatever is thrown inside the \<^verbatim>\<open>try\<close> is
  rethrown with a prefix.\<close>

definition createUserRepo_v2 :: "env \<Rightarrow> string \<Rightarrow> string \<Rightarrow> (event, jsval) run" where
  "createUserRepo_v2 env repoName accessToken =
     (let createRepoUrl =
            ''https://api.github.com/repos/hellofranklin/helixboilerplate/generate'';
          authtring = ''Bearer '' @ accessToken
      in (map Net (fst (fetch In_createUserRepo ''POST'' createRepoUrl (json_headers authtring)
                          (JObj [(''name'', JStr repoName)]) (github_generate env))),
          (case bindE (github_generate env) handleGitErrors of
             Inl e \<Rightarrow> Inl (Error (''Failed to Create Git Repo : '' @ message e))
           | Inr data \<Rightarrow> Inr data)))"

text \<open>\<^verbatim>\<open>getTemplateFolderId\<close> of that revision.\<close>

definition getTemplateFolderId_v2 :: "env \<Rightarrow> string \<Rightarrow> string \<Rightarrow> jsval \<Rightarrow> (event, jsval) run" where
  "getTemplateFolderId_v2 env templatesFolderID templateName googleAccessToken =
     (let params = URLSearchParams_q
                     (squote @ templatesFolderID @ squote @ '' in parents and name=''
                      @ squote @ templateName @ squote);
          driveURL = ''https://www.googleapis.com/drive/v3/files?'' @ params
      in (map Net (fst (fetch In_getTemplateFolderId ''GET'' driveURL
                          (json_headers (''Bearer '' @ to_string googleAccessToken))
                          JUndefined (drive_find_template env))),
          (case bindE (drive_find_template env) (\<lambda>response.
                  if \<not> ok response then
                    Inl (Error (''Request failed with status code ''
                                @ to_string (JNum (int (status response)))))
                  else
                    bindE (json response) (\<lambda>responseJson.
                    bindE (get_prop responseJson ''error'') (\<lambda>err.
                      if truthy err then
                        bindE (get_prop err ''message'') (\<lambda>msg. Inl (Error_of msg))
                      else
                        bindE (get_prop responseJson ''files'') (\<lambda>files.
                        bindE (iterate ''responseJson.files'' files) (\<lambda>items.
                          getTemplateFolderId_loop templateName items))))) of
             Inl e \<Rightarrow> Inl (Error (''Failed to fetch template folder ID: '' @ message e))
           | Inr found \<Rightarrow> Inr found)))"

section \<open>What is observed of a run\<close>

fun percent_of :: "event \<Rightarrow> int list" where
  "percent_of (Status statusMessage percentCompletion) = [percentCompletion]"
| "percent_of ev = []"

definition percents :: "event list \<Rightarrow> int list" where
  "percents tr = concat (map percent_of tr)"

fun calls_of :: "event \<Rightarrow> call list" where
  "calls_of (Net c) = [c]"
| "calls_of (Detached cs) = cs"
| "calls_of ev = []"

definition requests :: "event list \<Rightarrow> call list" where
  "requests tr = concat (map calls_of tr)"

fun caller_of :: "call \<Rightarrow> caller" where
  "caller_of (AuthFlow who url) = who"
| "caller_of (Fetch who method url headers body) = who"

text \<open>The functions that talk to the storage provider.\<close>

fun storage_side :: "caller \<Rightarrow> bool" where
  "storage_side In_getGoogleAccessToken = True"
| "storage_side In_createFolder = True"
| "storage_side In_createPermission = True"
| "storage_side In_getTemplateFolderId = True"
| "storage_side In_getFolderItemsByID = True"
| "storage_side In_getFile = True"
| "storage_side In_uploadFile = True"
| "storage_side who = False"

fun is_request :: "event \<Rightarrow> bool" where
  "is_request (Net c) = True"
| "is_request (Detached cs) = True"
| "is_request ev = False"

text \<open>The failure event is the status message of the \<^verbatim>\<open>catch\<close> block.\<close>

fun is_failure :: "event \<Rightarrow> bool" where
  "is_failure (Status statusMessage percentCompletion) =
     starts_with ''Failed to create Franklin Project '' statusMessage"
| "is_failure ev = False"

fun is_publish :: "event \<Rightarrow> bool" where
  "is_publish (Publish url) = True"
| "is_publish ev = False"

fun is_delete :: "call \<Rightarrow> bool" where
  "is_delete (Fetch who method url headers body) = (method = ''DELETE'')"
| "is_delete c = False"

fun made_by :: "caller \<Rightarrow> call \<Rightarrow> bool" where
  "made_by who c = (caller_of c = who)"

definition export_url :: "jsval \<Rightarrow> string \<Rightarrow> string" where
  "export_url documentId docType =
     ''https://docs.google.com/document/d/'' @ to_string documentId @ ''/export?format='' @ docType"

definition export_request :: "jsval \<Rightarrow> string \<Rightarrow> call" where
  "export_request documentId docType =
     Fetch In_getFile ''GET''
       (''https://docs.google.com/document/d/'' @ to_string documentId
        @ ''/export?format='' @ docType) [] JUndefined"

text \<open>The two requests of the upload of one exported file of kind \<^verbatim>\<open>xlsx\<close> or
  \<^verbatim>\<open>docx\<close>: the POST that opens the resumable upload with the metadata of the new file
  (its name, the Google type it is converted to, the target folder as its only parent), and
  the PUT of the exported bytes to the location that POST returned.\<close>

definition upload_start_request :: "jsval \<Rightarrow> jsval \<Rightarrow> string \<Rightarrow> jsval \<Rightarrow> call" where
  "upload_start_request folderId fileName docType googleAccessToken =
     Fetch In_uploadFile ''POST''
       ''https://www.googleapis.com/upload/drive/v3/files?uploadType=resumable''
       [(''Authorization'', ''Bearer '' @ to_string googleAccessToken),
        (''Content-Type'', ''application/json''),
        (''X-Upload-Content-Type'',
           if docType = ''xlsx''
           then ''application/vnd.openxmlformats-officedocument.spreadsheetml.sheet''
           else ''application/vnd.openxmlformats-officedocument.wordprocessingml.document'')]
       (JObj [(''name'', fileName),
              (''mimeType'',
                 JStr (if docType = ''xlsx'' then ''application/vnd.google-apps.spreadsheet''
                       else ''application/vnd.google-apps.document'')),
              (''parents'', JArr [folderId])])"

definition upload_blob_request :: "jsval \<Rightarrow> string \<Rightarrow> jsval \<Rightarrow> call" where
  "upload_blob_request location fileblob googleAccessToken =
     Fetch In_uploadFile ''PUT'' (to_string location)
       [(''Authorization'', ''Bearer '' @ to_string googleAccessToken)] (JStr fileblob)"

text \<open>What is seen of the copy of one template file: the export request at once and, set
  aside for later, the upload of what the export yields. An export that is rejected, or
  whose body cannot be read, is followed by no upload; an upload whose first request is
  rejected sends no second one.\<close>

definition uploads_after_export :: "env \<Rightarrow> jsval \<Rightarrow> jsval \<Rightarrow> jsval \<Rightarrow> string \<Rightarrow> call list" where
  "uploads_after_export env folderId googleAccessToken tempFile docType =
     (case docs_export env (export_url (field tempFile ''id'') docType) of
        Inr (Inr blob) \<Rightarrow>
          upload_start_request folderId (field tempFile ''name'') docType googleAccessToken
          # (case drive_upload_init env (field tempFile ''name'') of
               Inr location \<Rightarrow> [upload_blob_request location blob googleAccessToken]
             | Inl e \<Rightarrow> [])
      | Inr (Inl e) \<Rightarrow> []
      | Inl e \<Rightarrow> [])"

definition copy_events :: "env \<Rightarrow> jsval \<Rightarrow> jsval \<Rightarrow> jsval \<Rightarrow> string \<Rightarrow> event list" where
  "copy_events env folderId googleAccessToken tempFile docType =
     [Net (export_request (field tempFile ''id'') docType),
      Detached (uploads_after_export env folderId googleAccessToken tempFile docType)]"

text \<open>A spreadsheet is copied as \<^verbatim>\<open>xlsx\<close>, a document as \<^verbatim>\<open>docx\<close>, anything else not
  at all.\<close>

definition copy_events_of :: "env \<Rightarrow> jsval \<Rightarrow> jsval \<Rightarrow> jsval \<Rightarrow> event list" where
  "copy_events_of env folderId googleAccessToken tempFile =
     (if get_prop tempFile ''mimeType'' = Inr (JStr ''application/vnd.google-apps.spreadsheet'')
      then copy_events env folderId googleAccessToken tempFile ''xlsx''
      else if get_prop tempFile ''mimeType'' = Inr (JStr ''application/vnd.google-apps.document'')
      then copy_events env folderId googleAccessToken tempFile ''docx''
      else [])"

text \<open>An event that is a request (or a detached batch of requests) and deletes nothing.\<close>

definition quiet :: "event \<Rightarrow> bool" where
  "quiet ev = (is_request ev \<and> list_all (\<lambda>c. \<not> is_delete c) (calls_of ev))"

section \<open>Example backends\<close>

definition sheet_file :: jsval where
  "sheet_file = JObj [(''id'', JStr ''s1''), (''name'', JStr ''helix-query''),
                      (''mimeType'', JStr ''application/vnd.google-apps.spreadsheet'')]"

definition doc_file :: jsval where
  "doc_file = JObj [(''id'', JStr ''d1''), (''name'', JStr ''index''),
                    (''mimeType'', JStr ''application/vnd.google-apps.document'')]"

definition other_file :: jsval where
  "other_file = JObj [(''id'', JStr ''p1''), (''name'', JStr ''logo.png''),
                      (''mimeType'', JStr ''image/png'')]"

text \<open>Every backend answers as documented.\<close>

definition healthy_env :: env where
  "healthy_env =
     \<lparr> REDIRECT_URI = ''https://ext.chromiumapp.org/'',
       lastError = False,
       github_authorize = Inr (Some ''https://ext.chromiumapp.org/?code=4f2a''),
       github_access_token = Inr (Inr ''access_token=gho_16C7&scope=repo&token_type=bearer''),
       github_generate = Inr \<lparr> status = 201, payload = Parsed (JObj
          [(''url'', JStr ''https://api.github.com/repos/octo/site''),
           (''clone_url'', JStr ''https://github.com/octo/site.git'')]) \<rparr>,
       google_authorize =
         Inr (Some ''https://ext.chromiumapp.org/#access_token=ya29.a0&token_type=Bearer''),
       drive_create_folder =
         Inr \<lparr> status = 200, payload = Parsed (JObj [(''id'', JStr ''folder1'')]) \<rparr>,
       drive_create_permission =
         Inr \<lparr> status = 200, payload = Parsed (JObj [(''id'', JStr ''perm1'')]) \<rparr>,
       github_get_fstab =
         Inr \<lparr> status = 200, payload = Parsed (JObj [(''sha'', JStr ''95b9'')]) \<rparr>,
       github_put_fstab = Inr \<lparr> status = 200, payload = Parsed (JObj
          [(''commit'', JObj [(''message'', JStr ''updated FsTab.Yaml'')])]) \<rparr>,
       drive_find_template = Inr \<lparr> status = 200, payload = Parsed (JObj
          [(''files'', JArr [JObj [(''id'', JStr ''tpl1''), (''name'', JStr ''blog'')]])]) \<rparr>,
       drive_list_folder = Inr \<lparr> status = 200, payload = Parsed (JObj
          [(''files'', JArr [other_file, sheet_file, doc_file])]) \<rparr>,
       docs_export = (\<lambda>url. Inr (Inr ''blob'')),
       drive_upload_init = (\<lambda>name. Inr (JStr ''https://upload.example/session'')),
       drive_upload_put = (\<lambda>location.
         Inr \<lparr> status = 200, payload = Parsed (JObj [(''id'', JStr ''copy1'')]) \<rparr>) \<rparr>"

text \<open>The token endpoint refuses the code, as GitHub does for a code that is wrong or
  expired: the answer has status 200 and an \<^verbatim>\<open>error\<close> in its text. The API then answers
  401 to the request that carries what was taken for a token, and the request for
  \<^verbatim>\<open>undefined/contents/fstab.yaml\<close> reaches no server.\<close>

definition token_refused_env :: env where
  "token_refused_env =
     healthy_env \<lparr> github_access_token := Inr (Inr
                     ''error=bad_verification_code&error_description=The+code+passed+is+incorrect+or+expired.''),
                   github_generate := Inr \<lparr> status = 401, payload = Parsed (JObj
                     [(''message'', JStr ''Bad credentials'')]) \<rparr>,
                   github_get_fstab := Inl (TypeError ''Failed to fetch'') \<rparr>"

text \<open>The user refuses the consent screen of the storage provider.\<close>

definition google_denied_env :: env where
  "google_denied_env =
     healthy_env \<lparr> google_authorize := Inr (Some ''https://ext.chromiumapp.org/#error=access_denied'') \<rparr>"

text \<open>The storage API refuses the bytes of every upload.\<close>

definition upload_refused_env :: env where
  "upload_refused_env =
     healthy_env \<lparr> drive_upload_put := (\<lambda>location.
        Inr \<lparr> status = 403, payload = Parsed (JObj
          [(''error'', JObj [(''code'', JNum 403),
                            (''message'', JStr ''The user has exceeded their Drive storage quota'')])]) \<rparr>) \<rparr>"

text \<open>The listing of the template folder has an entry that is no file.\<close>

definition broken_listing_env :: env where
  "broken_listing_env =
     healthy_env \<lparr> drive_list_folder := Inr \<lparr> status = 200, payload = Parsed (JObj
          [(''files'', JArr [sheet_file, JNull])]) \<rparr> \<rparr>"

text \<open>The export of the spreadsheet is rejected, that of the document is not.\<close>

definition export_down_env :: env where
  "export_down_env =
     healthy_env \<lparr> docs_export := (\<lambda>url.
        if url = ''https://docs.google.com/document/d/s1/export?format=xlsx''
        then Inl (TypeError ''Failed to fetch'') else Inr (Inr ''blob'')) \<rparr>"

text \<open>The repository name is taken: GitHub answers 422 with an \<^verbatim>\<open>errors\<close> array.\<close>

definition name_taken :: response where
  "name_taken = \<lparr> status = 422, payload = Parsed (JObj
     [(''message'', JStr ''Repository creation failed.''),
      (''errors'', JArr [JStr ''Could not clone: Name already exists on this account''])]) \<rparr>"

definition accepted_with_errors :: response where
  "accepted_with_errors = \<lparr> status = 201, payload = Parsed (JObj
     [(''url'', JStr ''https://api.github.com/repos/octo/site''),
      (''errors'', JArr [JStr ''ignored''])]) \<rparr>"

section \<open>Sequencing lemmas\<close>

lemma bind_Inl [simp]: "bind (es, Inl e) f = (es, Inl e)"
  by (simp add: bind_def)

lemma bind_Inr [simp]: "bind (es, Inr x) f = (es @ fst (f x), snd (f x))"
  by (simp add: bind_def split: prod.splits)

lemma bindE_simps [simp]: "bindE (Inl e) f = Inl e" "bindE (Inr x) f = f x"
  by (simp_all add: bindE_def)

lemma fst_bind: "fst (bind m f) = fst m @ (case snd m of Inl e \<Rightarrow> [] | Inr x \<Rightarrow> fst (f x))"
  by (cases m) (auto split: sum.splits)

lemma snd_bind: "snd (bind m f) = (case snd m of Inl e \<Rightarrow> Inl e | Inr x \<Rightarrow> snd (f x))"
  by (cases m) (auto split: sum.splits)

lemma bind_eq_Inr:
  "bind m f = (tr, Inr y) \<longleftrightarrow>
     (\<exists>tr1 x tr2. m = (tr1, Inr x) \<and> f x = (tr2, Inr y) \<and> tr = tr1 @ tr2)"
  by (cases m; cases "snd m") (auto simp: bind_def split: prod.splits)

lemma run_simps [simp]:
  "fst (ret x) = []" "snd (ret x) = Inr x"
  "fst (throw e) = []" "snd (throw e) = Inl e"
  "fst (lift r) = []" "snd (lift r) = r"
  "fst (awaited m) = map Net (fst m)" "snd (awaited m) = snd m"
  "fst (fetch who method url headers body outcome) = [Fetch who method url headers body]"
  "snd (fetch who method url headers body outcome) = outcome"
  "fst (launchWebAuthFlow who url outcome2) = [Net (AuthFlow who url)]"
  "snd (launchWebAuthFlow who url outcome2) = outcome2"
  "fst (sendStatusMessage s p) = [Status s p]" "snd (sendStatusMessage s p) = Inr ()"
  "fst (publish u) = [Publish u]" "snd (publish u) = Inr ()"
  "fst installHelixbot = [Net (AuthFlow In_installHelixbot ''https://github.com/apps/helix-bot'')]"
  "snd installHelixbot = Inr ()"
  by (simp_all add: ret_def throw_def lift_def awaited_def fetch_def launchWebAuthFlow_def
      sendStatusMessage_def publish_def installHelixbot_def)

lemma leaf_eq_Inr [simp]:
  "sendStatusMessage s p = (tr, Inr u) \<longleftrightarrow> tr = [Status s p]"
  "lift r = (tr, Inr x) \<longleftrightarrow> tr = [] \<and> r = Inr x"
  "publish url = (tr, Inr u) \<longleftrightarrow> tr = [Publish url]"
  "installHelixbot = (tr, Inr u) \<longleftrightarrow>
     tr = [Net (AuthFlow In_installHelixbot ''https://github.com/apps/helix-bot'')]"
  by (auto simp: sendStatusMessage_def lift_def publish_def installHelixbot_def)

lemma list_all_bind:
  "list_all P (fst (bind m f)) \<longleftrightarrow>
     list_all P (fst m) \<and> (\<forall>x. snd m = Inr x \<longrightarrow> list_all P (fst (f x)))"
  by (auto simp: fst_bind split: sum.splits)

section \<open>Stages emit requests only, and never a DELETE\<close>

lemma quiet_simps [simp]:
  "quiet (Net (AuthFlow who url))"
  "quiet (Net (Fetch who method url headers body)) \<longleftrightarrow> method \<noteq> ''DELETE''"
  "\<not> quiet (Status s p)" "\<not> quiet (Publish u)"
  by (simp_all add: quiet_def)

lemma quiet_getGitHubAuthToken: "list_all quiet (fst (getGitHubAuthToken env))"
  by (simp add: getGitHubAuthToken_def Let_def list_all_bind split: option.splits)

lemma quiet_getAccessToken: "list_all quiet (fst (getAccessToken env t))"
  by (simp add: getAccessToken_def Let_def list_all_bind)

lemma quiet_createUserRepo: "list_all quiet (fst (createUserRepo env n t))"
  by (simp add: createUserRepo_def Let_def list_all_bind)

lemma quiet_getGoogleAccessToken: "list_all quiet (fst (getGoogleAccessToken env))"
  by (simp add: getGoogleAccessToken_def Let_def list_all_bind split: option.splits)

lemma quiet_createFolder: "list_all quiet (fst (createFolder env n t))"
  by (simp add: createFolder_def Let_def list_all_bind)

lemma quiet_createPermission: "list_all quiet (fst (createPermission env n t))"
  by (simp add: createPermission_def Let_def list_all_bind)

lemma quiet_editFsTab: "list_all quiet (fst (editFsTab env g t f))"
  by (simp add: editFsTab_def Let_def list_all_bind)

lemma quiet_getTemplateFolderId: "list_all quiet (fst (getTemplateFolderId env g t f))"
  by (simp add: getTemplateFolderId_def Let_def list_all_bind)

lemma quiet_getFolderItemsByID: "list_all quiet (fst (getFolderItemsByID env g t))"
  by (simp add: getFolderItemsByID_def Let_def list_all_bind)

lemma fst_uploadFile:
  "fst (uploadFile env folderId fileName blob docType tok) = cs \<Longrightarrow> list_all (\<lambda>c. \<not> is_delete c) cs"
  by (auto simp: uploadFile_def Let_def fst_bind split: sum.splits)

lemma quiet_copy_file: "list_all quiet (copy_file env t g f d)"
  using fst_uploadFile
  by (auto simp: copy_file_def Let_def getFile_def quiet_def split: sum.splits)

lemma quiet_addTemplate_body: "list_all quiet (fst (addTemplate_body env t g f))"
  by (simp add: addTemplate_body_def Let_def list_all_bind quiet_copy_file)

lemma quiet_addTemplate_loop: "list_all quiet (fst (addTemplate_loop env t g files))"
  by (induction files) (simp_all add: list_all_bind quiet_addTemplate_body)

lemma quiet_addTemplate: "list_all quiet (fst (addTemplate env n t g))"
  by (simp add: addTemplate_def list_all_bind quiet_getTemplateFolderId quiet_getFolderItemsByID
      quiet_addTemplate_loop)

lemmas quiet_stage = quiet_getGitHubAuthToken quiet_getAccessToken quiet_createUserRepo
  quiet_getGoogleAccessToken quiet_createFolder quiet_createPermission quiet_editFsTab
  quiet_addTemplate

lemma percents_simps [simp]:
  "percents [] = []"
  "percents (Status m p # tr) = p # percents tr"
  "percents (Publish u # tr) = percents tr"
  "percents (Net c # tr) = percents tr"
  "percents (Detached cs # tr) = percents tr"
  "percents (tr @ tr') = percents tr @ percents tr'"
  by (simp_all add: percents_def)

lemma percents_quiet: "list_all quiet tr \<Longrightarrow> percents tr = []"
  by (induction tr) (auto simp: percents_def quiet_def elim: is_request.elims)

lemma stage_percents:
  "getGitHubAuthToken env = (tr, r1) \<Longrightarrow> percents tr = []"
  "getAccessToken env a = (tr, r2) \<Longrightarrow> percents tr = []"
  "createUserRepo env n a = (tr, r3) \<Longrightarrow> percents tr = []"
  "getGoogleAccessToken env = (tr, r4) \<Longrightarrow> percents tr = []"
  "createFolder env n g = (tr, r5) \<Longrightarrow> percents tr = []"
  "createPermission env f g = (tr, r6) \<Longrightarrow> percents tr = []"
  "editFsTab env u a f = (tr, r7) \<Longrightarrow> percents tr = []"
  "addTemplate env t f g = (tr, r8) \<Longrightarrow> percents tr = []"
  using quiet_stage [THEN percents_quiet] by (metis fst_conv)+

lemma try_percents:
  assumes "oneclicksample_try env siteName templateName = (tr, Inr ())"
  shows "percents tr = [0, 1, 15, 33, 40, 50, 53, 60, 65, 75, 85, 90, 95, 100]"
  using assms unfolding oneclicksample_try_def
  by (clarsimp simp: bind_eq_Inr stage_percents)

lemma createUserRepo_result: "snd (createUserRepo env n t) = bindE (github_generate env) json"
  by (cases "github_generate env") (simp_all add: createUserRepo_def Let_def snd_bind)

lemma try_ends_with_publish:
  assumes "oneclicksample_try env siteName templateName = (tr, Inr ())"
  shows "\<exists>pre gitData gitcloneUrl.
           bindE (github_generate env) json = Inr gitData \<and>
           get_prop gitData ''clone_url'' = Inr gitcloneUrl \<and>
           tr = pre @ [Status ''Project setup completed !'' 100, Publish gitcloneUrl]"
proof -
  from assms obtain t n a tr' gitData gitcloneUrl pre where
    "createUserRepo env n a = (tr', Inr gitData)" "get_prop gitData ''clone_url'' = Inr gitcloneUrl"
    "tr = pre @ [Status ''Project setup completed !'' 100, Publish gitcloneUrl]"
    unfolding oneclicksample_try_def
    by (clarsimp simp: bind_eq_Inr)
  moreover from this have "bindE (github_generate env) json = Inr gitData"
    by (metis createUserRepo_result snd_conv)
  ultimately show ?thesis by blast
qed

lemma bind_eq_Inl:
  "bind m f = (tr, Inl e) \<longleftrightarrow>
     m = (tr, Inl e) \<or> (\<exists>tr1 x tr2. m = (tr1, Inr x) \<and> f x = (tr2, Inl e) \<and> tr = tr1 @ tr2)"
  by (cases m; cases "snd m") (auto simp: bind_def split: prod.splits)

lemma bind_fails: "snd m = Inl e \<Longrightarrow> bind m f = (fst m, Inl e)"
  by (cases m) simp

lemma bind_returns: "snd m = Inr x \<Longrightarrow> bind m f = (fst m @ fst (f x), snd (f x))"
  by (cases m) simp

lemma oneclicksample_trace:
  "oneclicksample env siteName templateName =
     fst (oneclicksample_try env siteName templateName)
     @ (case snd (oneclicksample_try env siteName templateName) of
          Inl e \<Rightarrow> [Status (''Failed to create Franklin Project '' @ [CHR 0x0A] @ message e) 0]
        | Inr u \<Rightarrow> [])"
  by (cases "oneclicksample_try env siteName templateName")
     (simp add: oneclicksample_def split: sum.splits)

lemmas stage_defs = getGitHubAuthToken_def getAccessToken_def createUserRepo_def
  getGoogleAccessToken_def createFolder_def createPermission_def editFsTab_def
  addTemplate_def getTemplateFolderId_def getFolderItemsByID_def addTemplate_body_def
  copy_file_def getFile_def uploadFile_def

lemmas js_defs = handleErrors_def json_def str_includes_def indexOf_def substring_from_def
  substring_def clamp_index_def getDocumentType_def field_def

lemmas env_defs = healthy_env_def sheet_file_def doc_file_def other_file_def

section \<open>The progress of a successful run\<close>

text \<open>
  C1. If the \<^verbatim>\<open>try\<close> block of \<^verbatim>\<open>oneclicksample\<close> runs to its end, that is, no stage
  throws, then the percentages sent with \<^verbatim>\<open>sendStatusMessage\<close> are
  0, 1, 15, 33, 40, 50, 53, 60, 65, 75, 85, 90, 95, 100 in this order, so they never
  decrease and end at 100, and the last two events of the run are the status message with
  100 and, after it, the publish message carrying the \<^verbatim>\<open>clone_url\<close> of the body that the
  repository creation returned.
\<close>

theorem oneclicksample_success_progress:
  assumes "snd (oneclicksample_try env siteName templateName) = Inr ()"
  shows "percents (oneclicksample env siteName templateName)
           = [0, 1, 15, 33, 40, 50, 53, 60, 65, 75, 85, 90, 95, 100]
       \<and> sorted (percents (oneclicksample env siteName templateName))
       \<and> last (percents (oneclicksample env siteName templateName)) = 100
       \<and> (\<exists>pre gitData gitcloneUrl.
             bindE (github_generate env) json = Inr gitData \<and>
             get_prop gitData ''clone_url'' = Inr gitcloneUrl \<and>
             oneclicksample env siteName templateName
               = pre @ [Status ''Project setup completed !'' 100, Publish gitcloneUrl])"
proof -
  obtain tr where tr: "oneclicksample_try env siteName templateName = (tr, Inr ())"
    using assms by (cases "oneclicksample_try env siteName templateName") auto
  then have run: "oneclicksample env siteName templateName = tr"
    by (simp add: oneclicksample_def)
  have p: "percents tr = [0, 1, 15, 33, 40, 50, 53, 60, 65, 75, 85, 90, 95, 100]"
    by (rule try_percents [OF tr])
  show ?thesis
    using try_ends_with_publish [OF tr] by (simp add: run p)
qed

theorem oneclicksample_success_progress_witness:
  "snd (oneclicksample_try healthy_env ''site'' ''blog'') = Inr ()
   \<and> percents (oneclicksample healthy_env ''site'' ''blog'')
         = [0, 1, 15, 33, 40, 50, 53, 60, 65, 75, 85, 90, 95, 100]
   \<and> last (percents (oneclicksample healthy_env ''site'' ''blog'')) = 100"
proof -
  have h: "snd (oneclicksample_try healthy_env ''site'' ''blog'') = Inr ()"
    by (simp add: oneclicksample_try_def snd_bind stage_defs js_defs env_defs Let_def)
  show ?thesis
    using h oneclicksample_success_progress [OF h] by blast
qed

section \<open>Stage ordering\<close>

lemma fst_getGitHubAuthToken:
  "fst (getGitHubAuthToken env) =
     [Net (AuthFlow In_getGitHubAuthToken
            (''https://github.com/login/oauth/authorize?client_id='' @ CLIENT_ID
             @ ''&redirect_uri='' @ REDIRECT_URI env @ ''&scope=repo,gist,admin''))]"
  by (simp add: getGitHubAuthToken_def Let_def fst_bind split: sum.splits option.splits)

lemma fst_getAccessToken:
  "fst (getAccessToken env gitAuthToken) =
     [Net (Fetch In_getAccessToken ''POST'' ''https://github.com/login/oauth/access_token''
            [(''Authentication'', gitAuthToken), (''Content-Type'', ''application/json'')]
            (JObj [(''client_id'', JStr CLIENT_ID), (''client_secret'', JStr GIT_CLIENT_SECRET),
                   (''code'', JStr gitAuthToken)]))]"
  by (simp add: getAccessToken_def Let_def fst_bind split: sum.splits option.splits)

lemma requests_simps [simp]:
  "requests [] = []"
  "requests (Status m p # tr) = requests tr"
  "requests (Publish u # tr) = requests tr"
  "requests (Net c # tr) = c # requests tr"
  "requests (Detached cs # tr) = cs @ requests tr"
  "requests (tr @ tr') = requests tr @ requests tr'"
  by (simp_all add: requests_def)

lemma try_prefix:
  "\<exists>K. oneclicksample_try env siteName templateName =
     bind (sendStatusMessage ''Setting Up Git Repo ...'' 0)
       (\<lambda>u. bind (sendStatusMessage ''Setting Up Git Repo ...'' 1)
       (\<lambda>u. bind (getGitHubAuthToken env)
       (\<lambda>gitAuthToken. bind (getAccessToken env gitAuthToken) K)))"
  unfolding oneclicksample_try_def by (rule exI) (rule refl)

text \<open>\<^verbatim>\<open>getAccessToken\<close> throws exactly when \<^verbatim>\<open>fetch\<close> or \<^verbatim>\<open>response.text()\<close>
  rejects. Once a body text is there, whatever it says, the function returns a string.\<close>

lemma getAccessToken_returns_on_any_text:
  "github_access_token env = Inr (Inr data) \<Longrightarrow> \<exists>accessToken. snd (getAccessToken env gitAuthToken) = Inr accessToken"
  by (simp add: getAccessToken_def Let_def snd_bind)

text \<open>If \<^verbatim>\<open>getAccessToken\<close> throws (after \<^verbatim>\<open>getGitHubAuthToken\<close> returned the code), the
  only requests of the whole run are the GitHub authorization flow and the token request:
  none is made by \<^verbatim>\<open>getGoogleAccessToken\<close>, \<^verbatim>\<open>createFolder\<close>, \<^verbatim>\<open>createPermission\<close> or
  any function of the template copy, detached uploads included.\<close>

lemma thrown_token_exchange_stops_before_storage:
  assumes auth: "snd (getGitHubAuthToken env) = Inr gitAuthToken"
    and exchange: "snd (getAccessToken env gitAuthToken) = Inl e"
  shows "map caller_of (requests (oneclicksample env siteName templateName))
           = [In_getGitHubAuthToken, In_getAccessToken]
       \<and> list_all (\<lambda>c. \<not> storage_side (caller_of c))
            (requests (oneclicksample env siteName templateName))"
proof -
  obtain K where "oneclicksample_try env siteName templateName =
     bind (sendStatusMessage ''Setting Up Git Repo ...'' 0)
       (\<lambda>u. bind (sendStatusMessage ''Setting Up Git Repo ...'' 1)
       (\<lambda>u. bind (getGitHubAuthToken env)
       (\<lambda>gitAuthToken. bind (getAccessToken env gitAuthToken) K)))"
    using try_prefix by blast
  then have "oneclicksample_try env siteName templateName =
          ([Status ''Setting Up Git Repo ...'' 0, Status ''Setting Up Git Repo ...'' 1]
           @ fst (getGitHubAuthToken env) @ fst (getAccessToken env gitAuthToken), Inl e)"
    by (simp add: sendStatusMessage_def bind_returns [OF auth] bind_fails [OF exchange])
  then show ?thesis
    by (simp add: oneclicksample_def fst_getGitHubAuthToken fst_getAccessToken)
qed

text \<open>The later revision stops such a run at the next stage: its \<^verbatim>\<open>createUserRepo\<close>
  throws on the status 401 that answers a request without a valid token.\<close>

lemma createUserRepo_v2_refuses_bad_token:
  "snd (createUserRepo_v2 token_refused_env ''site'' ''rification_code'')
     = Inl (Error (''Failed to Create Git Repo : {'' @ dquote @ ''message'' @ dquote @ '':''
                   @ dquote @ ''Bad credentials'' @ dquote @ ''}''))"
  by (simp add: createUserRepo_v2_def handleGitErrors_def parse_body_def ok_def JSON_stringify_def
      json_quote_def json_escape_def Error_of_def token_refused_env_def env_defs Let_def dquote_def)

text \<open>
  C2. The run in which the token endpoint refuses the code does not stop before the
  storage side. The answer \<^verbatim>\<open>error=bad_verification_code&...\<close> has no \<^verbatim>\<open>access_token=\<close>,
  so \<^verbatim>\<open>indexOf\<close> gives -1 and \<^verbatim>\<open>getAccessToken\<close> returns what the error text has
  from position 12 to its first \<^verbatim>\<open>&\<close>, \<^verbatim>\<open>rification_code\<close>, as the token.
  \<^verbatim>\<open>createUserRepo\<close> returns the body of the 401 answer as the repository, and the run
  goes on to the Google authorization flow, to \<^verbatim>\<open>createFolder\<close> and to
  \<^verbatim>\<open>createPermission\<close>; it fails only in \<^verbatim>\<open>editFsTab\<close>.
  The requests of the run, by the function that made them, are listed in order.
\<close>

theorem refused_token_exchange_reaches_storage:
  "snd (getAccessToken token_refused_env ''4f2a'') = Inr ''rification_code''
   \<and> snd (createUserRepo token_refused_env ''site'' ''rification_code'')
       = Inr (JObj [(''message'', JStr ''Bad credentials'')])
   \<and> map caller_of (requests (oneclicksample token_refused_env ''site'' ''blog''))
       = [In_getGitHubAuthToken, In_getAccessToken, In_createUserRepo, In_getGoogleAccessToken,
          In_createFolder, In_createPermission, In_editFsTab]"
proof -
  have token: "snd (getAccessToken token_refused_env ''4f2a'') = Inr ''rification_code''"
    by (simp add: getAccessToken_def snd_bind js_defs token_refused_env_def env_defs Let_def)
  have repo: "snd (createUserRepo token_refused_env ''site'' ''rification_code'')
       = Inr (JObj [(''message'', JStr ''Bad credentials'')])"
    by (simp add: createUserRepo_result json_def token_refused_env_def env_defs)
  have callers: "map caller_of (requests (oneclicksample token_refused_env ''site'' ''blog''))
       = [In_getGitHubAuthToken, In_getAccessToken, In_createUserRepo, In_getGoogleAccessToken,
          In_createFolder, In_createPermission, In_editFsTab]"
    by (simp add: oneclicksample_trace oneclicksample_try_def fst_bind snd_bind stage_defs js_defs
        token_refused_env_def env_defs Let_def)
  show ?thesis
    using token repo callers by blast
qed

section \<open>Failure of a stage\<close>

lemma quiet_not_failure: "list_all quiet tr \<Longrightarrow> list_all (\<lambda>ev. \<not> is_failure ev) tr"
  by (induction tr) (auto simp: quiet_def elim: is_request.elims)

lemma quiet_not_publish: "list_all quiet tr \<Longrightarrow> list_all (\<lambda>ev. \<not> is_publish ev) tr"
  by (induction tr) (auto simp: quiet_def elim: is_request.elims)

lemma quiet_no_delete:
  "list_all quiet tr \<Longrightarrow> list_all (\<lambda>ev. list_all (\<lambda>c. \<not> is_delete c) (calls_of ev)) tr"
  by (induction tr) (auto simp: quiet_def)

lemma try_no_failure_event:
  "list_all (\<lambda>ev. \<not> is_failure ev) (fst (oneclicksample_try env siteName templateName))"
  unfolding oneclicksample_try_def
  by (simp add: list_all_bind quiet_stage [THEN quiet_not_failure])

lemma try_no_delete:
  "list_all (\<lambda>ev. list_all (\<lambda>c. \<not> is_delete c) (calls_of ev))
     (fst (oneclicksample_try env siteName templateName))"
  unfolding oneclicksample_try_def
  by (simp add: list_all_bind quiet_stage [THEN quiet_no_delete])

lemma requests_no_delete:
  "list_all (\<lambda>ev. list_all Q (calls_of ev)) tr \<Longrightarrow> list_all Q (requests tr)"
  by (induction tr) (auto simp: requests_def)

lemma no_publish_bind:
  assumes "list_all (\<lambda>ev. \<not> is_publish ev) (fst m)"
    and "\<And>x. snd m = Inr x \<Longrightarrow> snd (f x) = Inl e \<longrightarrow> list_all (\<lambda>ev. \<not> is_publish ev) (fst (f x))"
  shows "snd (bind m f) = Inl e \<longrightarrow> list_all (\<lambda>ev. \<not> is_publish ev) (fst (bind m f))"
  using assms by (cases m; cases "snd m") (auto simp: fst_bind snd_bind)

lemma try_no_publish_on_failure:
  "snd (oneclicksample_try env siteName templateName) = Inl e \<longrightarrow>
   list_all (\<lambda>ev. \<not> is_publish ev) (fst (oneclicksample_try env siteName templateName))"
  unfolding oneclicksample_try_def
  by (intro no_publish_bind) (simp_all add: quiet_stage [THEN quiet_not_publish])

text \<open>When the \<^verbatim>\<open>try\<close> block throws \<open>e\<close>, that is, when a stage that the orchestrator
  awaits throws, the run is what the block had emitted up to the throw, followed by one
  status message with percentage 0 whose text is \<^verbatim>\<open>Failed to create Franklin Project\<close>, a
  line break and \<open>e\<close>'s message. That message is the only failure event, no publish message
  is sent, and no request of the run is a DELETE.\<close>

lemma awaited_failure_is_reported_once:
  assumes "snd (oneclicksample_try env siteName templateName) = Inl e"
  shows "oneclicksample env siteName templateName
           = fst (oneclicksample_try env siteName templateName)
             @ [Status (''Failed to create Franklin Project '' @ [CHR 0x0A] @ message e) 0]
       \<and> filter is_failure (oneclicksample env siteName templateName)
           = [Status (''Failed to create Franklin Project '' @ [CHR 0x0A] @ message e) 0]
       \<and> last (oneclicksample env siteName templateName)
           = Status (''Failed to create Franklin Project '' @ [CHR 0x0A] @ message e) 0
       \<and> filter is_publish (oneclicksample env siteName templateName) = []
       \<and> list_all (\<lambda>c. \<not> is_delete c) (requests (oneclicksample env siteName templateName))"
proof -
  let ?pre = "fst (oneclicksample_try env siteName templateName)"
  let ?failed = "Status (''Failed to create Franklin Project '' @ [CHR 0x0A] @ message e) 0"
  have run: "oneclicksample env siteName templateName = ?pre @ [?failed]"
    using assms by (simp add: oneclicksample_trace)
  have "filter is_failure ?pre = []"
    using try_no_failure_event [of env siteName templateName]
    by (simp add: list_all_iff filter_empty_conv)
  moreover have "filter is_publish ?pre = []"
    using try_no_publish_on_failure [of env siteName templateName e] assms
    by (simp add: list_all_iff filter_empty_conv)
  moreover have "list_all (\<lambda>c. \<not> is_delete c) (requests ?pre)"
    by (rule requests_no_delete [OF try_no_delete])
  ultimately show ?thesis
    by (simp add: run)
qed

text \<open>The uploads are not among the awaited stages. A listing whose second entry is
  \<^verbatim>\<open>null\<close> makes the loop of \<^verbatim>\<open>addTemplate\<close> throw after the copy of the first entry was
  started: the failure event is sent, and the upload started before it, which waits for the
  export to answer, still puts the spreadsheet into the new folder afterwards.\<close>

lemma uploads_started_before_a_failure:
  "last (oneclicksample broken_listing_env ''site'' ''blog'')
     = Status (''Failed to create Franklin Project '' @ [CHR 0x0A]
               @ ''Cannot read properties of null (reading '' @ squote @ ''mimeType'' @ squote
               @ '')'') 0
   \<and> Detached [upload_start_request (JStr ''folder1'') (JStr ''helix-query'') ''xlsx'' (JStr ''ya29.a0''),
               upload_blob_request (JStr ''https://upload.example/session'') ''blob'' (JStr ''ya29.a0'')]
       \<in> set (oneclicksample broken_listing_env ''site'' ''blog'')"
  by (simp add: oneclicksample_trace oneclicksample_try_def fst_bind snd_bind stage_defs js_defs
      broken_listing_env_def env_defs Let_def upload_start_request_def upload_blob_request_def
      squote_def)

text \<open>
  C3. An error of the template copy is not reported. With a storage API that refuses the
  bytes of an upload, \<^verbatim>\<open>uploadFile\<close> throws \<^verbatim>\<open>Failed to create Tempate\<close> with the
  message of the API. That upload belongs to the run: \<^verbatim>\<open>addTemplate\<close> started it for the
  spreadsheet of the template. Nobody holds its promise, so the run sends no failure event,
  reports every percentage up to 100 and ends with the publish message.
\<close>

theorem lost_upload_error_is_not_reported:
  "snd (uploadFile upload_refused_env (JStr ''folder1'') (JStr ''helix-query'') ''blob'' ''xlsx''
          (JStr ''ya29.a0''))
     = Inl (Error ([CHR 0x0A]
              @ ''Failed to create Tempate : The user has exceeded their Drive storage quota''))
   \<and> Detached (fst (uploadFile upload_refused_env (JStr ''folder1'') (JStr ''helix-query'')
                      ''blob'' ''xlsx'' (JStr ''ya29.a0'')))
       \<in> set (oneclicksample upload_refused_env ''site'' ''blog'')
   \<and> filter is_failure (oneclicksample upload_refused_env ''site'' ''blog'') = []
   \<and> percents (oneclicksample upload_refused_env ''site'' ''blog'')
       = [0, 1, 15, 33, 40, 50, 53, 60, 65, 75, 85, 90, 95, 100]
   \<and> last (oneclicksample upload_refused_env ''site'' ''blog'')
       = Publish (JStr ''https://github.com/octo/site.git'')"
proof -
  have thrown: "snd (uploadFile upload_refused_env (JStr ''folder1'') (JStr ''helix-query'') ''blob''
          ''xlsx'' (JStr ''ya29.a0''))
     = Inl (Error ([CHR 0x0A]
              @ ''Failed to create Tempate : The user has exceeded their Drive storage quota''))"
    by (simp add: uploadFile_def snd_bind js_defs upload_refused_env_def env_defs Let_def)
  have returns: "snd (oneclicksample_try upload_refused_env ''site'' ''blog'') = Inr ()"
    by (simp add: oneclicksample_try_def snd_bind stage_defs js_defs upload_refused_env_def
        env_defs Let_def)
  then have run: "oneclicksample upload_refused_env ''site'' ''blog''
      = fst (oneclicksample_try upload_refused_env ''site'' ''blog'')"
    by (simp add: oneclicksample_trace)
  have started: "Detached (fst (uploadFile upload_refused_env (JStr ''folder1'')
                      (JStr ''helix-query'') ''blob'' ''xlsx'' (JStr ''ya29.a0'')))
       \<in> set (fst (oneclicksample_try upload_refused_env ''site'' ''blog''))"
    by (simp add: oneclicksample_try_def fst_bind snd_bind stage_defs js_defs
        upload_refused_env_def env_defs Let_def)
  have silent: "filter is_failure (fst (oneclicksample_try upload_refused_env ''site'' ''blog'')) = []"
    using try_no_failure_event [of upload_refused_env "''site''" "''blog''"]
    by (simp add: list_all_iff filter_empty_conv)
  obtain tr where tr: "oneclicksample_try upload_refused_env ''site'' ''blog'' = (tr, Inr ())"
    using returns by (cases "oneclicksample_try upload_refused_env ''site'' ''blog''") auto
  have progress: "percents (fst (oneclicksample_try upload_refused_env ''site'' ''blog''))
       = [0, 1, 15, 33, 40, 50, 53, 60, 65, 75, 85, 90, 95, 100]"
    using try_percents [OF tr] by (simp add: tr)
  obtain pre gitData gitcloneUrl where
    body: "bindE (github_generate upload_refused_env) json = Inr gitData"
    and url: "get_prop gitData ''clone_url'' = Inr gitcloneUrl"
    and ending: "tr = pre @ [Status ''Project setup completed !'' 100, Publish gitcloneUrl]"
    using try_ends_with_publish [OF tr] by blast
  have "gitcloneUrl = JStr ''https://github.com/octo/site.git''"
    using body url by (auto simp: json_def upload_refused_env_def env_defs)
  then have published: "last (fst (oneclicksample_try upload_refused_env ''site'' ''blog''))
       = Publish (JStr ''https://github.com/octo/site.git'')"
    by (simp add: tr ending)
  show ?thesis
    unfolding run using thrown started silent progress published by blast
qed

section \<open>Repository creation\<close>

lemma handleGitErrors_not_ok:
  assumes "\<not> ok response" "payload response = Parsed data" "get_prop data ''errors'' = Inr errs"
  shows "truthy errs \<Longrightarrow> handleGitErrors response = bindE (js_join ''data.errors'' errs) (\<lambda>m. Inl (Error_of m))"
    and "\<not> truthy errs \<Longrightarrow> handleGitErrors response = Inl (Error (stringify data))"
proof -
  have d: "data \<noteq> JUndefined" using assms(3) by auto
  show "truthy errs \<Longrightarrow> handleGitErrors response = bindE (js_join ''data.errors'' errs) (\<lambda>m. Inl (Error_of m))"
    using assms by (cases errs) (simp_all add: handleGitErrors_def parse_body_def)
  show "\<not> truthy errs \<Longrightarrow> handleGitErrors response = Inl (Error (stringify data))"
    using assms d by (simp add: handleGitErrors_def parse_body_def JSON_stringify_def Error_of_def)
qed

lemma handleGitErrors_fails_when_not_ok: "\<not> ok response \<Longrightarrow> \<exists>e. handleGitErrors response = Inl e"
  by (auto simp: handleGitErrors_def parse_body_def bindE_def JSON_stringify_def 
      split: payload.splits sum.splits elim: js_join.elims)

text \<open>The revision of \<^verbatim>\<open>src/extension/hellofranklin.js\<close> itself has no check at all: whatever
  the status and whatever the body says, the parsed body is returned.\<close>

lemma createUserRepo_returns_any_body:
  "github_generate env = Inr response \<Longrightarrow> payload response = Parsed data \<Longrightarrow>
   snd (createUserRepo env repoName accessToken) = Inr data"
  by (simp add: createUserRepo_result json_def)

text \<open>
  C4, as the claim states it, fails: a response with a success status whose body carries
  an \<^verbatim>\<open>errors\<close> array is returned normally.
\<close>

theorem createUserRepo_errors_array_counterexample:
  "ok accepted_with_errors
   \<and> snd (createUserRepo_v2 (healthy_env \<lparr> github_generate := Inr accepted_with_errors \<rparr>)
            ''site'' ''gho_16C7'')
       = Inr (JObj [(''url'', JStr ''https://api.github.com/repos/octo/site''),
                    (''errors'', JArr [JStr ''ignored''])])"
  by (simp add: createUserRepo_v2_def handleGitErrors_def parse_body_def ok_def
      accepted_with_errors_def Let_def)

text \<open>
  C4, amended. In the revision that checks the response (\<^verbatim>\<open>handleGitErrors\<close>), every
  response with a non-success status makes \<^verbatim>\<open>createUserRepo\<close> throw an Error whose message
  is \<^verbatim>\<open>Failed to Create Git Repo : \<close> followed by the elements of the body's \<^verbatim>\<open>errors\<close>
  array joined with commas when the body has such an array, and by the JSON text of the
  body when its \<^verbatim>\<open>errors\<close> is missing or falsy; a response with a success status returns
  the parsed body, whether or not it carries an \<^verbatim>\<open>errors\<close> array.
\<close>

theorem createUserRepo_v2_fails_on_status:
  assumes "github_generate env = Inr response"
  shows "(\<not> ok response \<longrightarrow>
            (\<exists>text. snd (createUserRepo_v2 env repoName accessToken)
                      = Inl (Error (''Failed to Create Git Repo : '' @ text))))
       \<and> (\<forall>data es. \<not> ok response \<and> payload response = Parsed data
              \<and> get_prop data ''errors'' = Inr (JArr es) \<longrightarrow>
            snd (createUserRepo_v2 env repoName accessToken)
              = Inl (Error (''Failed to Create Git Repo : ''
                   @ join_with '',''
                       (map (\<lambda>x. if x = JNull \<or> x = JUndefined then [] else to_string x) es))))
       \<and> (\<forall>data errs. \<not> ok response \<and> payload response = Parsed data
              \<and> get_prop data ''errors'' = Inr errs \<and> \<not> truthy errs \<longrightarrow>
            snd (createUserRepo_v2 env repoName accessToken)
              = Inl (Error (''Failed to Create Git Repo : '' @ stringify data)))
       \<and> (\<forall>data. ok response \<and> payload response = Parsed data \<longrightarrow>
            snd (createUserRepo_v2 env repoName accessToken) = Inr data)"
proof -
  have r: "snd (createUserRepo_v2 env repoName accessToken) =
      (case handleGitErrors response of
         Inl e \<Rightarrow> Inl (Error (''Failed to Create Git Repo : '' @ message e))
       | Inr data \<Rightarrow> Inr data)"
    using assms by (simp add: createUserRepo_v2_def Let_def)
  have 1: "\<exists>text. snd (createUserRepo_v2 env repoName accessToken)
                      = Inl (Error (''Failed to Create Git Repo : '' @ text))"
    if "\<not> ok response"
    using handleGitErrors_fails_when_not_ok [OF that] by (auto simp: r)
  have 2: "snd (createUserRepo_v2 env repoName accessToken)
              = Inl (Error (''Failed to Create Git Repo : ''
                   @ join_with '',''
                       (map (\<lambda>x. if x = JNull \<or> x = JUndefined then [] else to_string x) es)))"
    if "\<not> ok response" "payload response = Parsed data" "get_prop data ''errors'' = Inr (JArr es)"
    for data es
    using handleGitErrors_not_ok(1) [OF that] by (simp add: r Error_of_def)
  have 3: "snd (createUserRepo_v2 env repoName accessToken)
              = Inl (Error (''Failed to Create Git Repo : '' @ stringify data))"
    if "\<not> ok response" "payload response = Parsed data" "get_prop data ''errors'' = Inr errs"
      "\<not> truthy errs" for data errs
    using handleGitErrors_not_ok(2) [OF that] by (simp add: r)
  have 4: "snd (createUserRepo_v2 env repoName accessToken) = Inr data"
    if "ok response" "payload response = Parsed data" for data
    using that by (simp add: r handleGitErrors_def parse_body_def)
  show ?thesis using 1 2 3 4 by blast
qed

theorem createUserRepo_v2_fails_on_status_witness:
  "\<not> ok name_taken
   \<and> snd (createUserRepo_v2 (healthy_env \<lparr> github_generate := Inr name_taken \<rparr>)
            ''site'' ''gho_16C7'')
       = Inl (Error (''Failed to Create Git Repo : ''
                     @ ''Could not clone: Name already exists on this account''))
   \<and> snd (createUserRepo_v2 (healthy_env \<lparr> github_generate := Inr accepted_with_errors \<rparr>)
            ''site'' ''gho_16C7'')
       = Inr (JObj [(''url'', JStr ''https://api.github.com/repos/octo/site''),
                    (''errors'', JArr [JStr ''ignored''])])"
proof -
  have n: "\<not> ok name_taken" by (simp add: ok_def name_taken_def)
  have a: "ok accepted_with_errors" by (simp add: ok_def accepted_with_errors_def)
  show ?thesis
    using n a
      createUserRepo_v2_fails_on_status
        [of "healthy_env \<lparr> github_generate := Inr name_taken \<rparr>" name_taken "''site''" "''gho_16C7''"]
      createUserRepo_v2_fails_on_status
        [of "healthy_env \<lparr> github_generate := Inr accepted_with_errors \<rparr>" accepted_with_errors
            "''site''" "''gho_16C7''"]
    by (simp add: name_taken_def accepted_with_errors_def)
qed

section \<open>Denied authorization\<close>

lemma getGitHubAuthToken_denied:
  "github_authorize env = Inr (Some u) \<Longrightarrow> str_includes u ''error=access_denied'' \<Longrightarrow>
   snd (getGitHubAuthToken env) = Inl (Error ''Failed to Authorize Git :  Access denied !'')"
  by (simp add: getGitHubAuthToken_def Let_def snd_bind)

lemma try_until_createFolder:
  "\<exists>K. oneclicksample_try env siteName templateName =
     bind (sendStatusMessage ''Setting Up Git Repo ...'' 0)
       (\<lambda>u. bind (sendStatusMessage ''Setting Up Git Repo ...'' 1)
       (\<lambda>u. bind (getGitHubAuthToken env)
       (\<lambda>gitAuthToken. bind (getAccessToken env gitAuthToken)
       (\<lambda>gitAccessToken. bind (sendStatusMessage ''Setting Up Git Repo ...'' 15)
       (\<lambda>u. bind (createUserRepo env siteName gitAccessToken)
       (\<lambda>gitData. bind (sendStatusMessage ''Git repo successfully created'' 33)
       (\<lambda>u. bind (lift (get_prop gitData ''url''))
       (\<lambda>giturl. bind (lift (get_prop gitData ''clone_url''))
       (\<lambda>gitcloneUrl. bind (sendStatusMessage ''Setting up Google Drive folder...'' 40)
       (\<lambda>u. bind (getGoogleAccessToken env)
       (\<lambda>googleAccessToken. bind (createFolder env siteName googleAccessToken)
          (K gitAccessToken giturl gitcloneUrl googleAccessToken))))))))))))"
  unfolding oneclicksample_try_def by (rule exI) (rule refl)

lemma createFolder_is_reached:
  assumes "snd (getGitHubAuthToken env) = Inr gitAuthToken"
    and "snd (getAccessToken env gitAuthToken) = Inr gitAccessToken"
    and "snd (createUserRepo env siteName gitAccessToken) = Inr gitData"
    and "get_prop gitData ''url'' = Inr giturl"
    and "get_prop gitData ''clone_url'' = Inr gitcloneUrl"
    and "snd (getGoogleAccessToken env) = Inr googleAccessToken"
  shows "set (fst (createFolder env siteName googleAccessToken))
           \<subseteq> set (oneclicksample env siteName templateName)"
proof -
  obtain K where "oneclicksample_try env siteName templateName =
     bind (sendStatusMessage ''Setting Up Git Repo ...'' 0)
       (\<lambda>u. bind (sendStatusMessage ''Setting Up Git Repo ...'' 1)
       (\<lambda>u. bind (getGitHubAuthToken env)
       (\<lambda>gitAuthToken. bind (getAccessToken env gitAuthToken)
       (\<lambda>gitAccessToken. bind (sendStatusMessage ''Setting Up Git Repo ...'' 15)
       (\<lambda>u. bind (createUserRepo env siteName gitAccessToken)
       (\<lambda>gitData. bind (sendStatusMessage ''Git repo successfully created'' 33)
       (\<lambda>u. bind (lift (get_prop gitData ''url''))
       (\<lambda>giturl. bind (lift (get_prop gitData ''clone_url''))
       (\<lambda>gitcloneUrl. bind (sendStatusMessage ''Setting up Google Drive folder...'' 40)
       (\<lambda>u. bind (getGoogleAccessToken env)
       (\<lambda>googleAccessToken. bind (createFolder env siteName googleAccessToken)
          (K gitAccessToken giturl gitcloneUrl googleAccessToken))))))))))))"
    using try_until_createFolder by blast
  then have "set (fst (createFolder env siteName googleAccessToken))
           \<subseteq> set (fst (oneclicksample_try env siteName templateName))"
    by (simp add: sendStatusMessage_def lift_def assms(4,5) bind_returns [OF assms(1)]
        bind_returns [OF assms(2)] bind_returns [OF assms(3)] bind_returns [OF assms(6)]
        fst_bind [of "createFolder env siteName googleAccessToken"])
       auto
  then show ?thesis
    by (auto simp: oneclicksample_trace)
qed

text \<open>
  C5. The source-control side does what the claim says (\<open>getGitHubAuthToken_denied\<close>). The
  storage side does not: when the redirect of the Google flow carries \<^verbatim>\<open>access_denied\<close>,
  \<^verbatim>\<open>getGoogleAccessToken\<close> returns \<^verbatim>\<open>null\<close>, the run goes on, \<^verbatim>\<open>createFolder\<close> sends
  \<^verbatim>\<open>Authorization: Bearer null\<close>, and with backends that answer the run reaches the end
  of the \<^verbatim>\<open>try\<close> block.
\<close>

theorem getGoogleAccessToken_denied_returns_null:
  "snd (getGoogleAccessToken google_denied_env) = Inr JNull
   \<and> snd (oneclicksample_try google_denied_env ''site'' ''blog'') = Inr ()
   \<and> Net (Fetch In_createFolder ''POST'' ''https://www.googleapis.com/drive/v3/files''
            (json_headers ''Bearer null'')
            (JObj [(''name'', JStr ''site''),
                   (''mimeType'', JStr ''application/vnd.google-apps.folder'')]))
       \<in> set (oneclicksample google_denied_env ''site'' ''blog'')"
proof -
  have a: "snd (getGoogleAccessToken google_denied_env) = Inr JNull"
    by (simp add: getGoogleAccessToken_def snd_bind js_defs google_denied_env_def env_defs Let_def)
  have b: "snd (oneclicksample_try google_denied_env ''site'' ''blog'') = Inr ()"
    by (simp add: oneclicksample_try_def snd_bind stage_defs js_defs google_denied_env_def env_defs Let_def)
  have 1: "snd (getGitHubAuthToken google_denied_env) = Inr ''4f2a''"
    by (simp add: getGitHubAuthToken_def snd_bind js_defs google_denied_env_def env_defs Let_def)
  have 2: "snd (getAccessToken google_denied_env ''4f2a'') = Inr ''gho_16C7''"
    by (simp add: getAccessToken_def snd_bind js_defs google_denied_env_def env_defs Let_def)
  have 3: "snd (createUserRepo google_denied_env ''site'' ''gho_16C7'')
      = Inr (JObj [(''url'', JStr ''https://api.github.com/repos/octo/site''),
                   (''clone_url'', JStr ''https://github.com/octo/site.git'')])"
    by (simp add: createUserRepo_result json_def google_denied_env_def env_defs)
  have "fst (createFolder google_denied_env ''site'' JNull)
      = [Net (Fetch In_createFolder ''POST'' ''https://www.googleapis.com/drive/v3/files''
            (json_headers ''Bearer null'')
            (JObj [(''name'', JStr ''site''),
                   (''mimeType'', JStr ''application/vnd.google-apps.folder'')]))]"
    by (simp add: createFolder_def fst_bind Let_def split: sum.splits)
  then have c: "Net (Fetch In_createFolder ''POST'' ''https://www.googleapis.com/drive/v3/files''
            (json_headers ''Bearer null'')
            (JObj [(''name'', JStr ''site''),
                   (''mimeType'', JStr ''application/vnd.google-apps.folder'')]))
       \<in> set (oneclicksample google_denied_env ''site'' ''blog'')"
    using createFolder_is_reached [OF 1 2 3 _ _ a, of _ _ "''blog''"] by simp
  show ?thesis using a b c by blast
qed

section \<open>The text surfaced by \<^verbatim>\<open>handleErrors\<close>\<close>

lemma starts_with_iff: "starts_with pat s \<longleftrightarrow> (\<exists>post. s = pat @ post)"
  by (induction pat s rule: starts_with.induct) auto

lemma indexOf_from_found:
  "indexOf_from i s pat \<noteq> - 1 \<Longrightarrow> 0 \<le> i \<Longrightarrow>
   \<exists>pre post. s = pre @ pat @ post \<and> indexOf_from i s pat = i + int (length pre)"
proof (induction i s pat rule: indexOf_from.induct)
  case (1 i pat)
  then show ?case by (auto split: if_splits)
next
  case (2 i c cs pat)
  show ?case
  proof (cases "starts_with pat (c # cs)")
    case True
    then obtain post where "c # cs = pat @ post"
      by (auto simp: starts_with_iff)
    then have "c # cs = [] @ pat @ post" by simp
    with True show ?thesis
      by (metis indexOf_from.simps(2) add.right_neutral list.size(3) of_nat_0)
  next
    case False
    with 2 obtain pre post where
      "cs = pre @ pat @ post" "indexOf_from (i + 1) cs pat = i + 1 + int (length pre)"
      by auto
    then have "c # cs = (c # pre) @ pat @ post
        \<and> indexOf_from i (c # cs) pat = i + int (length (c # pre))"
      using False by simp
    then show ?thesis by blast
  qed
qed

lemma includes_split:
  assumes "str_includes m pat"
  shows "\<exists>pre post. m = pre @ pat @ post \<and> indexOf m pat = int (length pre)"
  using indexOf_from_found [of 0 m pat] assms
  by (auto simp: str_includes_def indexOf_def)

lemma substring_from_drop: "0 \<le> i \<Longrightarrow> substring_from s i = drop (nat i) s"
  by (auto simp: substring_from_def substring_def clamp_index_def Let_def min_def max_def)

lemma handleErrors_marker:
  assumes "get_prop data ''error'' = Inr err" "truthy err"
    "get_prop err ''message'' = Inr (JStr m)" "str_includes m ''User message''"
  shows "handleErrors data = Inr (JStr (drop (nat (indexOf m ''User message'') + 14) m))
       \<and> (\<exists>pre post. m = pre @ ''User message'' @ post
             \<and> indexOf m ''User message'' = int (length pre)
             \<and> drop (nat (indexOf m ''User message'') + 14) m = drop 2 post)"
proof -
  obtain pre post where m: "m = pre @ ''User message'' @ post"
    and i: "indexOf m ''User message'' = int (length pre)"
    using includes_split [OF assms(4)] by blast
  have "m \<noteq> []" using m by auto
  then have "handleErrors data = Inr (JStr (substring_from m (indexOf m ''User message'' + 14)))"
    using assms by (simp add: handleErrors_def)
  moreover have "substring_from m (indexOf m ''User message'' + 14)
                   = drop (nat (indexOf m ''User message'') + 14) m"
    by (simp add: i substring_from_drop nat_add_distrib)
  moreover have "drop (nat (indexOf m ''User message'') + 14) m = drop 2 post"
    by (simp add: i) (simp add: m)
  ultimately show ?thesis using m i by auto
qed

text \<open>\<^verbatim>\<open>handleGoogleErrors\<close> of the later revision cuts at the same place.\<close>

lemma handleGoogleErrors_marker:
  assumes "\<not> ok r" "payload r = Parsed data" "get_prop data ''error'' = Inr err" "truthy err"
    "get_prop err ''message'' = Inr (JStr m)" "str_includes m ''User message''"
  shows "handleGoogleErrors r = Inl (Error (drop (nat (indexOf m ''User message'') + 14) m))"
proof -
  obtain pre post where m: "m = pre @ ''User message'' @ post"
    and i: "indexOf m ''User message'' = int (length pre)"
    using includes_split [OF assms(6)] by blast
  have "m \<noteq> []" using m by auto
  then show ?thesis
    using assms
    by (simp add: handleGoogleErrors_def parse_body_def Error_of_def i substring_from_drop
        nat_add_distrib)
qed

text \<open>
  C6, as the claim states it, fails: the surfaced text does not start right after the 12
  characters of the marker. For the message \<^verbatim>\<open>User message: quota\<close> the claim gives
  \<^verbatim>\<open>: quota\<close> and the code gives \<^verbatim>\<open>quota\<close>.
\<close>

theorem handleErrors_starts_after_marker_counterexample:
  "str_includes ''User message: quota'' ''User message''
   \<and> handleErrors (JObj [(''error'', JObj [(''message'', JStr ''User message: quota'')])])
       = Inr (JStr ''quota'')
   \<and> substring_from ''User message: quota'' (indexOf ''User message: quota'' ''User message'' + 12)
       = '': quota''"
  by (simp add: js_defs)

text \<open>
  C6, amended. For a body whose \<^verbatim>\<open>error\<close> is truthy: if \<^verbatim>\<open>error.message\<close> is a string
  containing the marker \<^verbatim>\<open>User message\<close>, the surfaced text is the message from 14
  characters after the start of the first occurrence of the marker, that is, from two
  characters after its end; if it is a non-empty string without the marker, the whole
  message is surfaced; if it is missing or falsy, the surfaced value is the parsed body
  itself.
\<close>

theorem handleErrors_surfaced_text:
  assumes "get_prop data ''error'' = Inr err" and "truthy err"
    and "get_prop err ''message'' = Inr msg"
  shows "(\<forall>m. msg = JStr m \<and> str_includes m ''User message'' \<longrightarrow>
            handleErrors data = Inr (JStr (drop (nat (indexOf m ''User message'') + 14) m))
            \<and> (\<exists>pre post. m = pre @ ''User message'' @ post
                  \<and> indexOf m ''User message'' = int (length pre)
                  \<and> drop (nat (indexOf m ''User message'') + 14) m = drop 2 post))
       \<and> (\<forall>m. msg = JStr m \<and> m \<noteq> [] \<and> \<not> str_includes m ''User message'' \<longrightarrow>
            handleErrors data = Inr (JStr m))
       \<and> (\<not> truthy msg \<longrightarrow> handleErrors data = Inr data)"
proof -
  have "handleErrors data = Inr (JStr m)"
    if "msg = JStr m" "m \<noteq> []" "\<not> str_includes m ''User message''" for m
    using assms that by (simp add: handleErrors_def)
  moreover have "handleErrors data = Inr data" if "\<not> truthy msg"
    using assms that by (simp add: handleErrors_def)
  ultimately show ?thesis
    using handleErrors_marker [OF assms(1,2)] assms(3) by blast
qed

theorem handleErrors_surfaced_text_witness:
  "handleErrors (JObj [(''error'', JObj [(''message'', JStr ''Forbidden. User message: quota'')])])
     = Inr (JStr ''quota'')
   \<and> handleErrors (JObj [(''error'', JObj [(''message'', JStr ''Forbidden'')])])
     = Inr (JStr ''Forbidden'')
   \<and> handleErrors (JObj [(''error'', JObj [(''code'', JNum 403)])])
     = Inr (JObj [(''error'', JObj [(''code'', JNum 403)])])"
proof -
  let ?d1 = "JObj [(''error'', JObj [(''message'', JStr ''Forbidden. User message: quota'')])]"
  let ?d2 = "JObj [(''error'', JObj [(''message'', JStr ''Forbidden'')])]"
  let ?d3 = "JObj [(''error'', JObj [(''code'', JNum 403)])]"
  have "handleErrors ?d1 = Inr (JStr ''quota'')"
    using handleErrors_surfaced_text
      [of ?d1 "JObj [(''message'', JStr ''Forbidden. User message: quota'')]"
          "JStr ''Forbidden. User message: quota''"]
    by (simp add: str_includes_def indexOf_def)
  moreover have "handleErrors ?d2 = Inr (JStr ''Forbidden'')"
    using handleErrors_surfaced_text
      [of ?d2 "JObj [(''message'', JStr ''Forbidden'')]" "JStr ''Forbidden''"]
    by (simp add: str_includes_def indexOf_def)
  moreover have "handleErrors ?d3 = Inr ?d3"
    using handleErrors_surfaced_text [of ?d3 "JObj [(''code'', JNum 403)]" JUndefined]
    by simp
  ultimately show ?thesis by blast
qed

section \<open>The mount configuration round trip\<close>

lemma b64_value_char: "n < 64 \<Longrightarrow> b64_value (b64_char n) = Some n"
  unfolding b64_value_def b64_char_def Let_def
  by (auto simp: of_char_of)

lemma b64_value_pad: "b64_value (CHR ''='') = None"
  by (simp add: b64_value_def)

lemma b64_char_not_pad: "n < 64 \<Longrightarrow> b64_char n \<noteq> CHR ''=''"
  using b64_value_char [of n] b64_value_pad by auto

lemma of_char_bound: "(of_char (c :: char) :: nat) < 256"
  by (rule nat_of_char_less_256)

lemma sextets:
  fixes x y z :: nat
  assumes "x < 256" "y < 256" "z < 256"
  shows "x div 4 < 64" "x mod 4 * 16 + y div 16 < 64" "y mod 16 * 4 + z div 64 < 64"
    "z mod 64 < 64" "x mod 4 * 16 < 64" "y mod 16 * 4 < 64"
  using assms by auto

lemma regroup:
  fixes x y z :: nat
  assumes "x < 256" "y < 256" "z < 256"
  shows "x div 4 * 4 + (x mod 4 * 16 + y div 16) div 16 = x"
    and "(x mod 4 * 16 + y div 16) mod 16 * 16 + (y mod 16 * 4 + z div 64) div 4 = y"
    and "(y mod 16 * 4 + z div 64) mod 4 * 64 + z mod 64 = z"
    and "x div 4 * 4 + (x mod 4 * 16) div 16 = x"
    and "(x mod 4 * 16 + y div 16) mod 16 * 16 + (y mod 16 * 4) div 4 = y"
  using assms by auto

lemma base64_roundtrip: "base64_decode (btoa s) = Some s"
proof (induction s rule: btoa.induct)
  case 1
  show ?case by simp
next
  case (2 a)
  show ?case
    using sextets [OF of_char_bound [of a] of_char_bound [of a] of_char_bound [of a]]
      regroup [OF of_char_bound [of a] of_char_bound [of a] of_char_bound [of a]]
    by (simp add: Let_def b64_value_char)
next
  case (3 a b)
  show ?case
    using sextets [OF of_char_bound [of a] of_char_bound [of b] of_char_bound [of b]]
      regroup [OF of_char_bound [of a] of_char_bound [of b] of_char_bound [of b]]
    by (simp add: Let_def b64_value_char b64_char_not_pad)
next
  case (4 a b c rest)
  then show ?case
    using sextets [OF of_char_bound [of a] of_char_bound [of b] of_char_bound [of c]]
      regroup [OF of_char_bound [of a] of_char_bound [of b] of_char_bound [of c]]
    by (simp add: Let_def b64_value_char b64_char_not_pad)
qed

lemma editFsTab_put:
  assumes "Net (Fetch In_editFsTab ''PUT'' url headers body) \<in> set (fst (editFsTab env giturl tok folderId))"
  shows "\<exists>blobsha. body = JObj [(''message'', JStr ''updated FsTab.Yaml''),
                                 (''content'', JStr (btoa (contentString folderId))),
                                 (''sha'', blobsha)]"
  using assms
  by (auto simp: editFsTab_def Let_def fst_bind split: sum.splits if_splits)

text \<open>
  C7. For every folder id, the content string of \<^verbatim>\<open>editFsTab\<close> is the line
  \<^verbatim>\<open>mountpoints:\<close>, a line break, two spaces and \<^verbatim>\<open>/: \<close> followed by the folder URL
  \<^verbatim>\<open>https://drive.google.com/drive/folders/\<close> plus the id; decoding its \<^verbatim>\<open>btoa\<close> gives the
  string back; and the \<^verbatim>\<open>content\<close> field of every \<^verbatim>\<open>PUT\<close> that \<^verbatim>\<open>editFsTab\<close> issues decodes
  to that string.
\<close>

theorem editFsTab_content_roundtrip:
  "contentString folderId
     = ''mountpoints:'' @ [CHR 0x0A] @ ''  /: https://drive.google.com/drive/folders/''
       @ to_string folderId
   \<and> base64_decode (btoa (contentString folderId)) = Some (contentString folderId)
   \<and> (\<forall>url headers body.
         Net (Fetch In_editFsTab ''PUT'' url headers body)
           \<in> set (fst (editFsTab env giturl gitAccessToken folderId)) \<longrightarrow>
         (\<exists>content. get_prop body ''content'' = Inr (JStr content)
                    \<and> base64_decode content = Some (contentString folderId)))"
proof -
  have "contentString folderId
     = ''mountpoints:'' @ [CHR 0x0A] @ ''  /: https://drive.google.com/drive/folders/''
       @ to_string folderId"
    by (simp add: contentString_def driveUrl_def)
  moreover have "base64_decode (btoa (contentString folderId)) = Some (contentString folderId)"
    by (rule base64_roundtrip)
  moreover have "\<exists>content. get_prop body ''content'' = Inr (JStr content)
                    \<and> base64_decode content = Some (contentString folderId)"
    if "Net (Fetch In_editFsTab ''PUT'' url headers body)
           \<in> set (fst (editFsTab env giturl gitAccessToken folderId))" for url headers body
    using editFsTab_put [OF that] by (auto simp: base64_roundtrip)
  ultimately show ?thesis by blast
qed

theorem editFsTab_content_roundtrip_witness:
  "Net (Fetch In_editFsTab ''PUT'' ''https://api.github.com/repos/octo/site/contents/fstab.yaml''
         (json_headers ''Bearer gho_16C7'')
         (JObj [(''message'', JStr ''updated FsTab.Yaml''),
                (''content'', JStr (btoa (contentString (JStr ''folder1'')))),
                (''sha'', JStr ''95b9'')]))
     \<in> set (fst (editFsTab healthy_env (JStr ''https://api.github.com/repos/octo/site'')
                   ''gho_16C7'' (JStr ''folder1'')))
   \<and> (\<exists>content.
         get_prop (JObj [(''message'', JStr ''updated FsTab.Yaml''),
                         (''content'', JStr (btoa (contentString (JStr ''folder1'')))),
                         (''sha'', JStr ''95b9'')]) ''content'' = Inr (JStr content)
         \<and> base64_decode content = Some (contentString (JStr ''folder1'')))"
proof -
  have put: "Net (Fetch In_editFsTab ''PUT'' ''https://api.github.com/repos/octo/site/contents/fstab.yaml''
         (json_headers ''Bearer gho_16C7'')
         (JObj [(''message'', JStr ''updated FsTab.Yaml''),
                (''content'', JStr (btoa (contentString (JStr ''folder1'')))),
                (''sha'', JStr ''95b9'')]))
     \<in> set (fst (editFsTab healthy_env (JStr ''https://api.github.com/repos/octo/site'')
                   ''gho_16C7'' (JStr ''folder1'')))"
    by (simp add: editFsTab_def fst_bind js_defs env_defs Let_def)
  show ?thesis
    using put editFsTab_content_roundtrip
      [of "JStr ''folder1''" healthy_env "JStr ''https://api.github.com/repos/octo/site''" "''gho_16C7''"]
    by blast
qed

section \<open>The template copy\<close>

lemma fst_getTemplateFolderId:
  "fst (getTemplateFolderId env folder templateName tok) =
     [Net (Fetch In_getTemplateFolderId ''GET''
            (''https://www.googleapis.com/drive/v3/files?''
             @ URLSearchParams_q (squote @ folder @ squote @ '' in parents and name=''
                                  @ squote @ templateName @ squote))
            (json_headers (''Bearer '' @ to_string tok)) JUndefined)]"
  by (simp add: getTemplateFolderId_def Let_def fst_bind split: sum.splits)

lemma fst_getFolderItemsByID:
  "fst (getFolderItemsByID env folderId tok) =
     [Net (Fetch In_getFolderItemsByID ''GET''
            (''https://www.googleapis.com/drive/v3/files?''
             @ URLSearchParams_q (squote @ to_string folderId @ squote @ '' in parents''))
            (json_headers (''Bearer '' @ to_string tok)) JUndefined)]"
  by (simp add: getFolderItemsByID_def Let_def fst_bind split: sum.splits)

lemma addTemplate_body_readable:
  "get_prop tempFile ''mimeType'' = Inr mt \<Longrightarrow>
   addTemplate_body env tgt tok tempFile =
     (if getDocumentType mt = ''xlsx'' \<or> getDocumentType mt = ''docx''
      then copy_file env tgt tok tempFile (getDocumentType mt) else [], Inr ())"
  by (simp add: addTemplate_body_def lift_def ret_def Let_def)

lemma addTemplate_loop_readable:
  assumes "\<forall>f\<in>set files. \<exists>mt. get_prop f ''mimeType'' = Inr mt"
  shows "addTemplate_loop env tgt tok files =
           (concat (map (\<lambda>f. fst (addTemplate_body env tgt tok f)) files), Inr ())"
  using assms
proof (induction files)
  case Nil
  show ?case by (simp add: ret_def)
next
  case (Cons f files)
  then obtain mt where "get_prop f ''mimeType'' = Inr mt" by auto
  then have "snd (addTemplate_body env tgt tok f) = Inr ()"
    by (simp add: addTemplate_body_readable)
  with Cons show ?case
    by (simp add: bind_returns)
qed

lemma mset_concat_map:
  "mset (concat (map g xs)) = (\<Sum>x\<in>#mset xs. mset (g x))"
  by (induction xs) auto

lemma mset_requests: "mset (requests tr) = (\<Sum>ev\<in>#mset tr. mset (calls_of ev))"
  by (simp add: requests_def mset_concat_map)

text \<open>The requests that \<^verbatim>\<open>uploadFile\<close> makes and the events of the copy of one file
  are those that \<open>uploads_after_export\<close> and \<open>copy_events\<close> write out.\<close>

lemma fst_uploadFile_requests:
  "docType = ''xlsx'' \<or> docType = ''docx'' \<Longrightarrow>
   fst (uploadFile env folderId fileName blob docType tok) =
     upload_start_request folderId fileName docType tok
     # (case drive_upload_init env fileName of
          Inr location \<Rightarrow> [upload_blob_request location blob tok]
        | Inl e \<Rightarrow> [])"
  by (auto simp: uploadFile_def Let_def fst_bind upload_start_request_def upload_blob_request_def
      fetch_def split: sum.splits)

lemma copy_file_events:
  "docType = ''xlsx'' \<or> docType = ''docx'' \<Longrightarrow>
   copy_file env tgt tok f docType = copy_events env tgt tok f docType"
  by (auto simp: copy_file_def copy_events_def uploads_after_export_def getFile_def Let_def
      export_url_def export_request_def fst_uploadFile_requests split: sum.splits)

lemma addTemplate_body_events:
  "get_prop f ''mimeType'' = Inr mt \<Longrightarrow>
   addTemplate_body env tgt tok f = (copy_events_of env tgt tok f, Inr ())"
  by (auto simp: addTemplate_body_readable copy_events_of_def getDocumentType_def copy_file_events)

lemma addTemplate_loop_events:
  assumes "\<forall>f\<in>set files. \<exists>mt. get_prop f ''mimeType'' = Inr mt"
  shows "addTemplate_loop env tgt tok files = (concat (map (copy_events_of env tgt tok) files), Inr ())"
proof -
  have "map (\<lambda>f. fst (addTemplate_body env tgt tok f)) files = map (copy_events_of env tgt tok) files"
    using assms by (auto simp: addTemplate_body_events)
  then show ?thesis
    by (simp only: addTemplate_loop_readable [OF assms])
qed

lemma uploads_after_export_callers:
  "filter (made_by In_getFile) (uploads_after_export env tgt tok f d) = []"
  "filter (made_by In_uploadFile) (uploads_after_export env tgt tok f d)
     = uploads_after_export env tgt tok f d"
  by (auto simp: uploads_after_export_def upload_start_request_def upload_blob_request_def
      split: sum.splits)

lemma requests_copy_events:
  "requests (copy_events env tgt tok f d)
     = export_request (field f ''id'') d # uploads_after_export env tgt tok f d"
  by (simp add: copy_events_def)

text \<open>
  C8, as the claim states it, fails: with the three files in the listing and the export
  of the spreadsheet rejected, both exports are requested but only the document is
  uploaded. One upload occurs, not two.
\<close>

theorem addTemplate_one_export_rejected_counterexample:
  "snd (getFolderItemsByID export_down_env (JStr ''tpl1'') (JStr ''ya29.a0''))
     = Inr (JArr [other_file, sheet_file, doc_file])
   \<and> filter (made_by In_getFile)
       (requests (fst (addTemplate export_down_env ''blog'' (JStr ''folder1'') (JStr ''ya29.a0''))))
     = [export_request (JStr ''s1'') ''xlsx'', export_request (JStr ''d1'') ''docx'']
   \<and> filter (made_by In_uploadFile)
       (requests (fst (addTemplate export_down_env ''blog'' (JStr ''folder1'') (JStr ''ya29.a0''))))
     = [upload_start_request (JStr ''folder1'') (JStr ''index'') ''docx'' (JStr ''ya29.a0''),
        upload_blob_request (JStr ''https://upload.example/session'') ''blob'' (JStr ''ya29.a0'')]"
  by (simp add: fst_bind snd_bind stage_defs js_defs export_down_env_def env_defs Let_def
      export_request_def upload_start_request_def upload_blob_request_def)

text \<open>
  C8, amended. When the listing of the template folder is, in any order, one spreadsheet,
  one document and one file of another type, \<^verbatim>\<open>addTemplate\<close> returns normally and its
  events are exactly six: the two lookups, the export request with \<^verbatim>\<open>format=xlsx\<close> for the
  id of the spreadsheet, the export request with \<^verbatim>\<open>format=docx\<close> for the id of the
  document, and one detached upload after each export. Nothing is requested for the third
  file. The upload after an export that yields a blob is the POST to the resumable upload
  address with the name of the file, the Google type of its kind and the target folder as
  its only parent, followed, when that POST resolves, by the PUT of the blob to the
  location it returned; after an export that yields no blob there is no upload. So when
  both exports yield a blob and both POSTs resolve, the requests of \<^verbatim>\<open>uploadFile\<close> are
  exactly these two POSTs and two PUTs.
\<close>

theorem addTemplate_copies_recognized_files_only:
  assumes resolve: "snd (getTemplateFolderId env TEMPLATE_FOLDER_ID tempName tok) = Inr templateFolderId"
    and listing: "snd (getFolderItemsByID env templateFolderId tok) = Inr (JArr files)"
    and three: "mset files = {#sheet, doc, other#}"
    and sheet: "get_prop sheet ''mimeType'' = Inr (JStr ''application/vnd.google-apps.spreadsheet'')"
    and doc: "get_prop doc ''mimeType'' = Inr (JStr ''application/vnd.google-apps.document'')"
    and other: "get_prop other ''mimeType'' = Inr mt"
      "mt \<noteq> JStr ''application/vnd.google-apps.spreadsheet''"
      "mt \<noteq> JStr ''application/vnd.google-apps.document''"
  shows "snd (addTemplate env tempName tgt tok) = Inr ()
       \<and> mset (fst (addTemplate env tempName tgt tok))
           = {#Net (Fetch In_getTemplateFolderId ''GET''
                     (''https://www.googleapis.com/drive/v3/files?''
                      @ URLSearchParams_q (squote @ TEMPLATE_FOLDER_ID @ squote
                          @ '' in parents and name='' @ squote @ tempName @ squote))
                     (json_headers (''Bearer '' @ to_string tok)) JUndefined),
               Net (Fetch In_getFolderItemsByID ''GET''
                     (''https://www.googleapis.com/drive/v3/files?''
                      @ URLSearchParams_q (squote @ to_string templateFolderId @ squote
                          @ '' in parents''))
                     (json_headers (''Bearer '' @ to_string tok)) JUndefined),
               Net (export_request (field sheet ''id'') ''xlsx''),
               Detached (uploads_after_export env tgt tok sheet ''xlsx''),
               Net (export_request (field doc ''id'') ''docx''),
               Detached (uploads_after_export env tgt tok doc ''docx'')#}
       \<and> mset (filter (made_by In_getFile) (requests (fst (addTemplate env tempName tgt tok))))
           = {#export_request (field sheet ''id'') ''xlsx'', export_request (field doc ''id'') ''docx''#}
       \<and> mset (filter (made_by In_uploadFile) (requests (fst (addTemplate env tempName tgt tok))))
           = mset (uploads_after_export env tgt tok sheet ''xlsx'')
             + mset (uploads_after_export env tgt tok doc ''docx'')
       \<and> (\<forall>blob1 blob2 location1 location2.
             docs_export env (export_url (field sheet ''id'') ''xlsx'') = Inr (Inr blob1) \<and>
             docs_export env (export_url (field doc ''id'') ''docx'') = Inr (Inr blob2) \<and>
             drive_upload_init env (field sheet ''name'') = Inr location1 \<and>
             drive_upload_init env (field doc ''name'') = Inr location2 \<longrightarrow>
             mset (filter (made_by In_uploadFile) (requests (fst (addTemplate env tempName tgt tok))))
               = {#upload_start_request tgt (field sheet ''name'') ''xlsx'' tok,
                   upload_blob_request location1 blob1 tok,
                   upload_start_request tgt (field doc ''name'') ''docx'' tok,
                   upload_blob_request location2 blob2 tok#})"
proof -
  let ?T = "fst (addTemplate env tempName tgt tok)"
  let ?find = "Net (Fetch In_getTemplateFolderId ''GET''
                     (''https://www.googleapis.com/drive/v3/files?''
                      @ URLSearchParams_q (squote @ TEMPLATE_FOLDER_ID @ squote
                          @ '' in parents and name='' @ squote @ tempName @ squote))
                     (json_headers (''Bearer '' @ to_string tok)) JUndefined)"
  let ?list = "Net (Fetch In_getFolderItemsByID ''GET''
                     (''https://www.googleapis.com/drive/v3/files?''
                      @ URLSearchParams_q (squote @ to_string templateFolderId @ squote
                          @ '' in parents''))
                     (json_headers (''Bearer '' @ to_string tok)) JUndefined)"
  have "set_mset (mset files) = {sheet, doc, other}"
    by (simp add: three insert_commute)
  then have members: "set files = {sheet, doc, other}" by simp
  then have readable: "\<forall>f\<in>set files. \<exists>mt. get_prop f ''mimeType'' = Inr mt"
    using sheet doc other by auto
  have loop: "addTemplate_loop env tgt tok files
      = (concat (map (copy_events_of env tgt tok) files), Inr ())"
    by (rule addTemplate_loop_events [OF readable])
  have run: "addTemplate env tempName tgt tok =
      ([?find, ?list] @ concat (map (copy_events_of env tgt tok) files), Inr ())"
    by (simp add: addTemplate_def bind_returns [OF resolve] bind_returns [OF listing] lift_def loop
        fst_getTemplateFolderId fst_getFolderItemsByID)
  have b_sheet: "copy_events_of env tgt tok sheet = copy_events env tgt tok sheet ''xlsx''"
    by (simp add: copy_events_of_def sheet)
  have b_doc: "copy_events_of env tgt tok doc = copy_events env tgt tok doc ''docx''"
    by (simp add: copy_events_of_def doc)
  have b_other: "copy_events_of env tgt tok other = []"
    using other by (simp add: copy_events_of_def)
  have events: "mset ?T = mset ([?find, ?list] @ copy_events env tgt tok sheet ''xlsx''
                                @ copy_events env tgt tok doc ''docx'')"
    by (simp add: run mset_concat_map three b_sheet b_doc b_other)
  have reqs: "mset (requests ?T)
      = mset (requests ([?find, ?list] @ copy_events env tgt tok sheet ''xlsx''
                        @ copy_events env tgt tok doc ''docx''))"
    by (simp only: mset_requests events)
  have exports: "mset (filter (made_by In_getFile) (requests ?T))
      = {#export_request (field sheet ''id'') ''xlsx'', export_request (field doc ''id'') ''docx''#}"
    unfolding mset_filter reqs
    unfolding mset_filter [symmetric]
    by (simp add: requests_copy_events uploads_after_export_callers export_request_def)
  have uploads: "mset (filter (made_by In_uploadFile) (requests ?T))
      = mset (uploads_after_export env tgt tok sheet ''xlsx'')
        + mset (uploads_after_export env tgt tok doc ''docx'')"
    unfolding mset_filter reqs
    unfolding mset_filter [symmetric]
    by (simp add: requests_copy_events uploads_after_export_callers export_request_def)
  have healthy: "mset (filter (made_by In_uploadFile) (requests ?T))
               = {#upload_start_request tgt (field sheet ''name'') ''xlsx'' tok,
                   upload_blob_request location1 blob1 tok,
                   upload_start_request tgt (field doc ''name'') ''docx'' tok,
                   upload_blob_request location2 blob2 tok#}"
    if "docs_export env (export_url (field sheet ''id'') ''xlsx'') = Inr (Inr blob1)"
      "docs_export env (export_url (field doc ''id'') ''docx'') = Inr (Inr blob2)"
      "drive_upload_init env (field sheet ''name'') = Inr location1"
      "drive_upload_init env (field doc ''name'') = Inr location2"
    for blob1 blob2 location1 location2
    unfolding uploads using that by (simp add: uploads_after_export_def)
  have all: "mset ?T = {#?find, ?list, Net (export_request (field sheet ''id'') ''xlsx''),
               Detached (uploads_after_export env tgt tok sheet ''xlsx''),
               Net (export_request (field doc ''id'') ''docx''),
               Detached (uploads_after_export env tgt tok doc ''docx'')#}"
    by (simp add: events copy_events_def)
  have returns: "snd (addTemplate env tempName tgt tok) = Inr ()"
    by (simp add: run)
  show ?thesis
    using returns all exports uploads healthy by blast
qed

theorem addTemplate_copies_recognized_files_only_witness:
  "snd (getTemplateFolderId healthy_env TEMPLATE_FOLDER_ID ''blog'' (JStr ''ya29.a0'')) = Inr (JStr ''tpl1'')
   \<and> snd (getFolderItemsByID healthy_env (JStr ''tpl1'') (JStr ''ya29.a0''))
       = Inr (JArr [other_file, sheet_file, doc_file])
   \<and> mset (filter (made_by In_getFile)
              (requests (fst (addTemplate healthy_env ''blog'' (JStr ''folder1'') (JStr ''ya29.a0'')))))
       = {#export_request (JStr ''s1'') ''xlsx'', export_request (JStr ''d1'') ''docx''#}
   \<and> mset (filter (made_by In_uploadFile)
              (requests (fst (addTemplate healthy_env ''blog'' (JStr ''folder1'') (JStr ''ya29.a0'')))))
       = {#upload_start_request (JStr ''folder1'') (JStr ''helix-query'') ''xlsx'' (JStr ''ya29.a0''),
           upload_blob_request (JStr ''https://upload.example/session'') ''blob'' (JStr ''ya29.a0''),
           upload_start_request (JStr ''folder1'') (JStr ''index'') ''docx'' (JStr ''ya29.a0''),
           upload_blob_request (JStr ''https://upload.example/session'') ''blob'' (JStr ''ya29.a0'')#}"
proof -
  have a: "snd (getTemplateFolderId healthy_env TEMPLATE_FOLDER_ID ''blog'' (JStr ''ya29.a0'')) = Inr (JStr ''tpl1'')"
    by (simp add: getTemplateFolderId_def snd_bind js_defs healthy_env_def Let_def)
  have b: "snd (getFolderItemsByID healthy_env (JStr ''tpl1'') (JStr ''ya29.a0''))
       = Inr (JArr [other_file, sheet_file, doc_file])"
    by (simp add: getFolderItemsByID_def snd_bind js_defs healthy_env_def Let_def)
  have c: "mset [other_file, sheet_file, doc_file] = {#sheet_file, doc_file, other_file#}"
    by simp
  have d: "get_prop sheet_file ''mimeType'' = Inr (JStr ''application/vnd.google-apps.spreadsheet'')"
    "get_prop doc_file ''mimeType'' = Inr (JStr ''application/vnd.google-apps.document'')"
    "get_prop other_file ''mimeType'' = Inr (JStr ''image/png'')"
    "JStr ''image/png'' \<noteq> JStr ''application/vnd.google-apps.spreadsheet''"
    "JStr ''image/png'' \<noteq> JStr ''application/vnd.google-apps.document''"
    by (simp_all add: sheet_file_def doc_file_def other_file_def)
  have e: "field sheet_file ''id'' = JStr ''s1''" "field doc_file ''id'' = JStr ''d1''"
    "field sheet_file ''name'' = JStr ''helix-query''" "field doc_file ''name'' = JStr ''index''"
    by (simp_all add: field_def sheet_file_def doc_file_def)
  have f: "docs_export healthy_env (export_url (JStr ''s1'') ''xlsx'') = Inr (Inr ''blob'')"
    "docs_export healthy_env (export_url (JStr ''d1'') ''docx'') = Inr (Inr ''blob'')"
    "drive_upload_init healthy_env (JStr ''helix-query'') = Inr (JStr ''https://upload.example/session'')"
    "drive_upload_init healthy_env (JStr ''index'') = Inr (JStr ''https://upload.example/session'')"
    by (simp_all add: healthy_env_def)
  note t = addTemplate_copies_recognized_files_only [OF a b c d, of "JStr ''folder1''"]
  from t have x: "mset (filter (made_by In_getFile)
              (requests (fst (addTemplate healthy_env ''blog'' (JStr ''folder1'') (JStr ''ya29.a0'')))))
       = {#export_request (field sheet_file ''id'') ''xlsx'', export_request (field doc_file ''id'') ''docx''#}"
    by blast
  from t f have y: "mset (filter (made_by In_uploadFile)
              (requests (fst (addTemplate healthy_env ''blog'' (JStr ''folder1'') (JStr ''ya29.a0'')))))
       = {#upload_start_request (JStr ''folder1'') (field sheet_file ''name'') ''xlsx'' (JStr ''ya29.a0''),
           upload_blob_request (JStr ''https://upload.example/session'') ''blob'' (JStr ''ya29.a0''),
           upload_start_request (JStr ''folder1'') (field doc_file ''name'') ''docx'' (JStr ''ya29.a0''),
           upload_blob_request (JStr ''https://upload.example/session'') ''blob'' (JStr ''ya29.a0'')#}"
    unfolding e by blast
  show ?thesis
    using a b x y by (simp add: e)
qed

section \<open>A template that is not there\<close>

lemma loop_no_match:
  "\<forall>item\<in>set items. \<exists>n. get_prop item ''name'' = Inr n \<and> n \<noteq> JStr templateName \<Longrightarrow>
   getTemplateFolderId_loop templateName items = Inr JNull"
  by (induction items) auto

lemma snd_getTemplateFolderId:
  "drive_find_template env = Inr response \<Longrightarrow>
   snd (getTemplateFolderId env folder templateName tok) =
     bindE (json response) (\<lambda>responseJson.
     bindE (handleErrors responseJson) (\<lambda>ignored.
     bindE (get_prop responseJson ''files'') (\<lambda>files.
     bindE (iterate ''responseJson.files'' files) (\<lambda>items.
       getTemplateFolderId_loop templateName items))))"
  by (simp add: getTemplateFolderId_def Let_def snd_bind bindE_def split: sum.splits)

lemma snd_getFolderItemsByID:
  "drive_list_folder env = Inr listed \<Longrightarrow>
   snd (getFolderItemsByID env folderId tok) =
     bindE (json listed) (\<lambda>responseJson. get_prop responseJson ''files'')"
  by (simp add: getFolderItemsByID_def Let_def snd_bind bindE_def split: sum.splits)

text \<open>
  C9, as the claim states it, fails: with the template library holding only \<^verbatim>\<open>blog\<close>, the
  name \<^verbatim>\<open>missing\<close> resolves to \<^verbatim>\<open>null\<close>, \<^verbatim>\<open>addTemplate\<close> returns normally, and the
  spreadsheet that the listing for folder \<^verbatim>\<open>null\<close> returns is exported.
\<close>

theorem unknown_template_is_not_an_error_counterexample:
  "snd (getTemplateFolderId healthy_env TEMPLATE_FOLDER_ID ''missing'' (JStr ''ya29.a0'')) = Inr JNull
   \<and> snd (addTemplate healthy_env ''missing'' (JStr ''folder1'') (JStr ''ya29.a0'')) = Inr ()
   \<and> export_request (JStr ''s1'') ''xlsx''
       \<in> set (requests (fst (addTemplate healthy_env ''missing'' (JStr ''folder1'') (JStr ''ya29.a0''))))"
  by (simp add: fst_bind snd_bind stage_defs js_defs env_defs Let_def export_request_def)

text \<open>
  C9, amended. For every template name that is the name of no child in the answer of the
  template library, \<^verbatim>\<open>getTemplateFolderId\<close> returns \<^verbatim>\<open>null\<close> (in both revisions) and no
  error is raised for it. The first two events of \<^verbatim>\<open>addTemplate\<close> are the lookup and the
  listing of the children of folder \<^verbatim>\<open>null\<close>, and the rest is decided by the answer to
  that listing alone. When it is an array of files, \<^verbatim>\<open>addTemplate\<close> returns normally and
  its remaining events are, file by file in the order of the listing, the export request
  and the detached upload of each spreadsheet and each document, and nothing for any other
  file. When the answer has no \<^verbatim>\<open>files\<close>, \<^verbatim>\<open>addTemplate\<close> throws the TypeError
  \<^verbatim>\<open>templateFiles is not iterable\<close> and has no further event.
\<close>

theorem unknown_template_resolves_to_null:
  assumes "drive_find_template env = Inr response"
    and "json response = Inr responseJson"
    and "handleErrors responseJson = Inr ignored"
    and "get_prop responseJson ''files'' = Inr (JArr items)"
    and "\<forall>item\<in>set items. \<exists>n. get_prop item ''name'' = Inr n \<and> n \<noteq> JStr templateName"
  shows "snd (getTemplateFolderId env TEMPLATE_FOLDER_ID templateName tok) = Inr JNull
       \<and> take 2 (fst (addTemplate env templateName tgt tok))
           = [Net (Fetch In_getTemplateFolderId ''GET''
                     (''https://www.googleapis.com/drive/v3/files?''
                      @ URLSearchParams_q (squote @ TEMPLATE_FOLDER_ID @ squote
                          @ '' in parents and name='' @ squote @ templateName @ squote))
                     (json_headers (''Bearer '' @ to_string tok)) JUndefined),
              Net (Fetch In_getFolderItemsByID ''GET''
                     (''https://www.googleapis.com/drive/v3/files?''
                      @ URLSearchParams_q (squote @ ''null'' @ squote @ '' in parents''))
                     (json_headers (''Bearer '' @ to_string tok)) JUndefined)]
       \<and> (\<forall>listed listing files.
             drive_list_folder env = Inr listed \<and> json listed = Inr listing \<and>
             get_prop listing ''files'' = Inr (JArr files) \<and>
             (\<forall>f\<in>set files. \<exists>mt. get_prop f ''mimeType'' = Inr mt) \<longrightarrow>
             snd (addTemplate env templateName tgt tok) = Inr () \<and>
             drop 2 (fst (addTemplate env templateName tgt tok))
               = concat (map (copy_events_of env tgt tok) files))
       \<and> (\<forall>listed listing.
             drive_list_folder env = Inr listed \<and> json listed = Inr listing \<and>
             get_prop listing ''files'' = Inr JUndefined \<longrightarrow>
             snd (addTemplate env templateName tgt tok)
               = Inl (TypeError ''templateFiles is not iterable'') \<and>
             drop 2 (fst (addTemplate env templateName tgt tok)) = [])
       \<and> (ok response \<and> get_prop responseJson ''error'' = Inr JUndefined \<longrightarrow>
            snd (getTemplateFolderId_v2 env library templateName tok) = Inr JNull)"
proof -
  let ?find = "Net (Fetch In_getTemplateFolderId ''GET''
                     (''https://www.googleapis.com/drive/v3/files?''
                      @ URLSearchParams_q (squote @ TEMPLATE_FOLDER_ID @ squote
                          @ '' in parents and name='' @ squote @ templateName @ squote))
                     (json_headers (''Bearer '' @ to_string tok)) JUndefined)"
  let ?list = "Net (Fetch In_getFolderItemsByID ''GET''
                     (''https://www.googleapis.com/drive/v3/files?''
                      @ URLSearchParams_q (squote @ ''null'' @ squote @ '' in parents''))
                     (json_headers (''Bearer '' @ to_string tok)) JUndefined)"
  let ?rest = "\<lambda>templateFiles. bind (lift (iterate ''templateFiles'' templateFiles))
                    (\<lambda>files. addTemplate_loop env tgt tok files)"
  have null: "snd (getTemplateFolderId env TEMPLATE_FOLDER_ID templateName tok) = Inr JNull"
    using assms by (simp add: snd_getTemplateFolderId loop_no_match)
  have run: "addTemplate env templateName tgt tok =
      (?find # fst (bind (getFolderItemsByID env JNull tok) ?rest),
       snd (bind (getFolderItemsByID env JNull tok) ?rest))"
    by (simp add: addTemplate_def bind_returns [OF null] fst_getTemplateFolderId)
  have first: "take 2 (fst (addTemplate env templateName tgt tok)) = [?find, ?list]"
    by (simp add: run fst_bind fst_getFolderItemsByID)
  have copies: "snd (addTemplate env templateName tgt tok) = Inr () \<and>
             drop 2 (fst (addTemplate env templateName tgt tok))
               = concat (map (copy_events_of env tgt tok) files)"
    if "drive_list_folder env = Inr listed" "json listed = Inr listing"
      "get_prop listing ''files'' = Inr (JArr files)"
      "\<forall>f\<in>set files. \<exists>mt. get_prop f ''mimeType'' = Inr mt"
    for listed listing files
  proof -
    have "snd (getFolderItemsByID env JNull tok) = Inr (JArr files)"
      using that by (simp add: snd_getFolderItemsByID)
    then show ?thesis
      by (simp add: run bind_returns fst_getFolderItemsByID lift_def
          addTemplate_loop_events [OF that(4)])
  qed
  have no_files: "snd (addTemplate env templateName tgt tok)
               = Inl (TypeError ''templateFiles is not iterable'') \<and>
             drop 2 (fst (addTemplate env templateName tgt tok)) = []"
    if "drive_list_folder env = Inr listed" "json listed = Inr listing"
      "get_prop listing ''files'' = Inr JUndefined"
    for listed listing
  proof -
    have "snd (getFolderItemsByID env JNull tok) = Inr JUndefined"
      using that by (simp add: snd_getFolderItemsByID)
    then show ?thesis
      by (simp add: run bind_returns fst_getFolderItemsByID lift_def)
  qed
  have later: "snd (getTemplateFolderId_v2 env library templateName tok) = Inr JNull"
    if "ok response" "get_prop responseJson ''error'' = Inr JUndefined"
    using assms that by (simp add: getTemplateFolderId_v2_def Let_def loop_no_match)
  show ?thesis
    using null first copies no_files later by blast
qed

theorem unknown_template_resolves_to_null_witness:
  "drive_find_template healthy_env = Inr \<lparr> status = 200, payload = Parsed (JObj
          [(''files'', JArr [JObj [(''id'', JStr ''tpl1''), (''name'', JStr ''blog'')]])]) \<rparr>
   \<and> snd (getTemplateFolderId healthy_env TEMPLATE_FOLDER_ID ''missing'' (JStr ''ya29.a0'')) = Inr JNull
   \<and> snd (getTemplateFolderId_v2 healthy_env TEMPLATE_FOLDER_ID ''missing'' (JStr ''ya29.a0'')) = Inr JNull
   \<and> drop 2 (fst (addTemplate healthy_env ''missing'' (JStr ''folder1'') (JStr ''ya29.a0'')))
       = [Net (export_request (JStr ''s1'') ''xlsx''),
          Detached [upload_start_request (JStr ''folder1'') (JStr ''helix-query'') ''xlsx'' (JStr ''ya29.a0''),
                    upload_blob_request (JStr ''https://upload.example/session'') ''blob'' (JStr ''ya29.a0'')],
          Net (export_request (JStr ''d1'') ''docx''),
          Detached [upload_start_request (JStr ''folder1'') (JStr ''index'') ''docx'' (JStr ''ya29.a0''),
                    upload_blob_request (JStr ''https://upload.example/session'') ''blob'' (JStr ''ya29.a0'')]]"
proof -
  let ?r = "\<lparr> status = 200, payload = Parsed (JObj
          [(''files'', JArr [JObj [(''id'', JStr ''tpl1''), (''name'', JStr ''blog'')]])]) \<rparr>"
  let ?j = "JObj [(''files'', JArr [JObj [(''id'', JStr ''tpl1''), (''name'', JStr ''blog'')]])]"
  let ?l = "\<lparr> status = 200, payload = Parsed (JObj
          [(''files'', JArr [other_file, sheet_file, doc_file])]) \<rparr>"
  have a: "drive_find_template healthy_env = Inr ?r"
    by (simp add: healthy_env_def)
  have b: "json ?r = Inr ?j" by (simp add: json_def)
  have c: "handleErrors ?j = Inr JUndefined" by (simp add: handleErrors_def)
  have d: "get_prop ?j ''files'' = Inr (JArr [JObj [(''id'', JStr ''tpl1''), (''name'', JStr ''blog'')]])"
    by simp
  have e: "\<forall>item\<in>set [JObj [(''id'', JStr ''tpl1''), (''name'', JStr ''blog'')]].
             \<exists>n. get_prop item ''name'' = Inr n \<and> n \<noteq> JStr ''missing''"
    by simp
  have f: "ok ?r" "get_prop ?j ''error'' = Inr JUndefined"
    by (simp_all add: ok_def)
  have g: "drive_list_folder healthy_env = Inr ?l"
    "json ?l = Inr (JObj [(''files'', JArr [other_file, sheet_file, doc_file])])"
    "get_prop (JObj [(''files'', JArr [other_file, sheet_file, doc_file])]) ''files''
       = Inr (JArr [other_file, sheet_file, doc_file])"
    "\<forall>f\<in>set [other_file, sheet_file, doc_file]. \<exists>mt. get_prop f ''mimeType'' = Inr mt"
    by (simp_all add: healthy_env_def json_def sheet_file_def doc_file_def other_file_def)
  note t = unknown_template_resolves_to_null
        [OF a b c d e, of "JStr ''ya29.a0''" "JStr ''folder1''" TEMPLATE_FOLDER_ID]
  from t have n: "snd (getTemplateFolderId healthy_env TEMPLATE_FOLDER_ID ''missing'' (JStr ''ya29.a0'')) = Inr JNull"
    by blast
  from t f have v: "snd (getTemplateFolderId_v2 healthy_env TEMPLATE_FOLDER_ID ''missing'' (JStr ''ya29.a0'')) = Inr JNull"
    by blast
  from t g have "drop 2 (fst (addTemplate healthy_env ''missing'' (JStr ''folder1'') (JStr ''ya29.a0'')))
       = concat (map (copy_events_of healthy_env (JStr ''folder1'') (JStr ''ya29.a0''))
                   [other_file, sheet_file, doc_file])"
    by blast
  then have h: "drop 2 (fst (addTemplate healthy_env ''missing'' (JStr ''folder1'') (JStr ''ya29.a0'')))
       = [Net (export_request (JStr ''s1'') ''xlsx''),
          Detached [upload_start_request (JStr ''folder1'') (JStr ''helix-query'') ''xlsx'' (JStr ''ya29.a0''),
                    upload_blob_request (JStr ''https://upload.example/session'') ''blob'' (JStr ''ya29.a0'')],
          Net (export_request (JStr ''d1'') ''docx''),
          Detached [upload_start_request (JStr ''folder1'') (JStr ''index'') ''docx'' (JStr ''ya29.a0''),
                    upload_blob_request (JStr ''https://upload.example/session'') ''blob'' (JStr ''ya29.a0'')]]"
    by (simp add: copy_events_of_def copy_events_def uploads_after_export_def export_request_def
        export_url_def field_def healthy_env_def sheet_file_def doc_file_def other_file_def)
  show ?thesis
    using a n v h by blast
qed

section \<open>The error message of \<^verbatim>\<open>createFolder\<close>\<close>

lemma snd_createFolder:
  "drive_create_folder env = Inr response \<Longrightarrow> json response = Inr data \<Longrightarrow>
   snd (createFolder env folderName tok) =
     bindE (handleErrors data) (\<lambda>handled.
       if handled \<noteq> JUndefined
       then Inl (Error ([CHR 0x0A] @ ''Failed to create Google drive Folder : undefined''))
       else get_prop data ''id'')"
  by (cases "handleErrors data") (simp_all add: createFolder_def snd_bind Let_def)

lemma handleErrors_defined:
  assumes "get_prop data ''error'' = Inr err" "truthy err" "get_prop err ''message'' = Inr msg"
    "\<not> truthy msg \<or> (\<exists>m. msg = JStr m)"
  shows "\<exists>handled. handleErrors data = Inr handled \<and> handled \<noteq> JUndefined"
proof -
  have "data \<noteq> JUndefined" using assms(1) by auto
  then show ?thesis
    using assms by (auto simp: handleErrors_def)
qed

text \<open>
  C10. Whenever \<^verbatim>\<open>handleErrors\<close> returns a defined value for the parsed body, as it does
  for every body with a truthy \<^verbatim>\<open>error\<close> whose \<^verbatim>\<open>message\<close> is a string or is missing,
  \<^verbatim>\<open>createFolder\<close> throws an Error whose message is a line break and
  \<^verbatim>\<open>Failed to create Google drive Folder : undefined\<close>: the interpolated variable is never
  assigned, so the text from the provider is lost. Whenever the body has no \<^verbatim>\<open>error\<close>
  property, \<^verbatim>\<open>createFolder\<close> returns the body's \<^verbatim>\<open>id\<close>. The status of the response plays
  no part: replacing it by any other status leaves the outcome as it is.
\<close>

theorem createFolder_throws_undefined:
  assumes "drive_create_folder env = Inr response" and "json response = Inr data"
  shows "(\<forall>handled. handleErrors data = Inr handled \<and> handled \<noteq> JUndefined \<longrightarrow>
            snd (createFolder env folderName googleAccessToken)
              = Inl (Error ([CHR 0x0A] @ ''Failed to create Google drive Folder : undefined'')))
       \<and> (\<forall>err msg. get_prop data ''error'' = Inr err \<and> truthy err
              \<and> get_prop err ''message'' = Inr msg \<and> (\<not> truthy msg \<or> (\<exists>m. msg = JStr m)) \<longrightarrow>
            snd (createFolder env folderName googleAccessToken)
              = Inl (Error ([CHR 0x0A] @ ''Failed to create Google drive Folder : undefined'')))
       \<and> (get_prop data ''error'' = Inr JUndefined \<longrightarrow>
            (\<exists>folderId. get_prop data ''id'' = Inr folderId
               \<and> snd (createFolder env folderName googleAccessToken) = Inr folderId))
       \<and> (\<forall>code. snd (createFolder
                         (env \<lparr> drive_create_folder := Inr (response \<lparr> status := code \<rparr>) \<rparr>)
                         folderName googleAccessToken)
                   = snd (createFolder env folderName googleAccessToken))"
proof -
  let ?thrown = "Inl (Error ([CHR 0x0A] @ ''Failed to create Google drive Folder : undefined''))"
  have j: "json (response \<lparr> status := code \<rparr>) = Inr data" for code
    using assms(2) by (simp add: json_def)
  have 1: "snd (createFolder env folderName googleAccessToken) = ?thrown"
    if "handleErrors data = Inr handled" "handled \<noteq> JUndefined" for handled
    using that by (simp add: snd_createFolder [OF assms])
  have 2: "snd (createFolder env folderName googleAccessToken) = ?thrown"
    if "get_prop data ''error'' = Inr err" "truthy err" "get_prop err ''message'' = Inr msg"
      "\<not> truthy msg \<or> (\<exists>m. msg = JStr m)" for err msg
    using handleErrors_defined [OF that] 1 by blast
  have 3: "\<exists>folderId. get_prop data ''id'' = Inr folderId
               \<and> snd (createFolder env folderName googleAccessToken) = Inr folderId"
    if "get_prop data ''error'' = Inr JUndefined"
  proof -
    have "\<exists>folderId. get_prop data ''id'' = Inr folderId"
      using that by (cases data) (auto split: option.splits)
    then obtain folderId where "get_prop data ''id'' = Inr folderId" by blast
    then show ?thesis
      using that by (simp add: snd_createFolder [OF assms] handleErrors_def)
  qed
  have 4: "snd (createFolder (env \<lparr> drive_create_folder := Inr (response \<lparr> status := code \<rparr>) \<rparr>)
                  folderName googleAccessToken)
             = snd (createFolder env folderName googleAccessToken)" for code
    using snd_createFolder [OF assms]
      snd_createFolder [of "env \<lparr> drive_create_folder := Inr (response \<lparr> status := code \<rparr>) \<rparr>"
                           "response \<lparr> status := code \<rparr>" data, OF _ j]
    by simp
  show ?thesis using 1 2 3 4 by blast
qed

theorem createFolder_throws_undefined_witness:
  "snd (createFolder
          (healthy_env \<lparr> drive_create_folder := Inr \<lparr> status = 403, payload = Parsed (JObj
             [(''error'', JObj [(''message'', JStr ''quota exceeded'')])]) \<rparr> \<rparr>)
          ''site'' (JStr ''ya29.a0''))
     = Inl (Error ([CHR 0x0A] @ ''Failed to create Google drive Folder : undefined''))
   \<and> snd (createFolder
          (healthy_env \<lparr> drive_create_folder := Inr \<lparr> status = 500, payload = Parsed (JObj
             [(''id'', JStr ''folder9'')]) \<rparr> \<rparr>)
          ''site'' (JStr ''ya29.a0''))
     = Inr (JStr ''folder9'')"
proof -
  let ?r1 = "\<lparr> status = 403, payload = Parsed (JObj
             [(''error'', JObj [(''message'', JStr ''quota exceeded'')])]) \<rparr>"
  let ?d1 = "JObj [(''error'', JObj [(''message'', JStr ''quota exceeded'')])]"
  let ?r2 = "\<lparr> status = 500, payload = Parsed (JObj [(''id'', JStr ''folder9'')]) \<rparr>"
  let ?d2 = "JObj [(''id'', JStr ''folder9'')]"
  have 1: "snd (createFolder (healthy_env \<lparr> drive_create_folder := Inr ?r1 \<rparr>) ''site'' (JStr ''ya29.a0''))
     = Inl (Error ([CHR 0x0A] @ ''Failed to create Google drive Folder : undefined''))"
    using createFolder_throws_undefined
      [of "healthy_env \<lparr> drive_create_folder := Inr ?r1 \<rparr>" ?r1 ?d1 "''site''" "JStr ''ya29.a0''"]
    by (simp add: js_defs)
  have 2: "snd (createFolder (healthy_env \<lparr> drive_create_folder := Inr ?r2 \<rparr>) ''site'' (JStr ''ya29.a0''))
     = Inr (JStr ''folder9'')"
    using createFolder_throws_undefined
      [of "healthy_env \<lparr> drive_create_folder := Inr ?r2 \<rparr>" ?r2 ?d2 "''site''" "JStr ''ya29.a0''"]
    by (simp add: js_defs)
  show ?thesis using 1 2 by blast
qed

end
